theory Spec2Isabelle
  imports Main
begin

section \<open>Errors\<close>

text \<open>
  Go's \<^verbatim>\<open>error\<close> values, as far as the controllers tell them apart: a plain error
  (\<^verbatim>\<open>errors.New\<close>, \<^verbatim>\<open>fmt.Errorf\<close> without \<^verbatim>\<open>%w\<close>), an API status error
  with reason NotFound, an error wrapped by \<^verbatim>\<open>fmt.Errorf("...%w", err)\<close>, and the
  aggregate built by \<^verbatim>\<open>utilerrors.NewAggregate\<close>. A nil error is \<open>None\<close> of
  \<open>error option\<close>.
\<close>

datatype error =
    Error string
  | StatusNotFound string
  | Wrapped string error
  | Aggregate "error list"

text \<open>\<^verbatim>\<open>errors.IsNotFound\<close>: the status reason of the error, looked for along the
  chain of wrapped errors.\<close>

fun IsNotFound :: "error \<Rightarrow> bool" where
  "IsNotFound (StatusNotFound _) = True"
| "IsNotFound (Wrapped _ e) = IsNotFound e"
| "IsNotFound _ = False"

text \<open>\<^verbatim>\<open>utilerrors.NewAggregate\<close>: nil for an empty list, the aggregate otherwise
  (the callers append non-nil errors only).\<close>

definition NewAggregate :: "error list \<Rightarrow> error option" where
  "NewAggregate errlist = (if errlist = [] then None else Some (Aggregate errlist))"

text \<open>The causes an error carries: itself, what it wraps, and the members of an
  aggregate, transitively (what \<^verbatim>\<open>errors.Is\<close> can find in it).\<close>

primrec causes :: "error \<Rightarrow> error list" where
  "causes (Error s) = [Error s]"
| "causes (StatusNotFound s) = [StatusNotFound s]"
| "causes (Wrapped s e) = Wrapped s e # causes e"
| "causes (Aggregate es) = Aggregate es # concat (map causes es)"

definition carries :: "error \<Rightarrow> error \<Rightarrow> bool" where
  "carries e c = (c \<in> set (causes e))"

section \<open>The work queue\<close>

text \<open>
  Modelled from the spec: the rate-limited work queue (\<^verbatim>\<open>workqueue.RateLimitingInterface\<close>
  of client-go) is an external collaborator; its code is not part of the repository. The
  model follows section 4.1 of the specification:
  \<^item> \<open>queue\<close> is the FIFO of keys ready to be handed out;
  \<^item> \<open>dirty\<close> holds the keys that were added and not yet handed out;
  \<^item> \<open>processing\<close> holds the keys handed out by \<open>Get\<close> and not yet released by \<open>Done\<close>;
  \<^item> \<open>failures\<close> is the per-key retry counter read by \<open>NumRequeues\<close>;
  \<^item> \<open>waiting\<close> holds the keys scheduled by \<open>AddRateLimited\<close> whose delay has not
    elapsed;
  \<^item> \<open>shuttingDown\<close> is set by \<open>ShutDown\<close>.
\<close>

record workqueue =
  queue :: "string list"
  dirty :: "string set"
  processing :: "string set"
  failures :: "string \<Rightarrow> nat"
  waiting :: "string list"
  shuttingDown :: bool

definition NewNamedRateLimitingQueue :: workqueue where
  "NewNamedRateLimitingQueue =
     \<lparr>queue = [], dirty = {}, processing = {}, failures = (\<lambda>_. 0), waiting = [],
      shuttingDown = False\<rparr>"

text \<open>\<open>add(key)\<close>: inserts the key if not already queued; while the key is being
  processed the insertion is deferred until \<open>done\<close>.\<close>

definition Add :: "string \<Rightarrow> workqueue \<Rightarrow> workqueue" where
  "Add k q =
     (if shuttingDown q then q
      else if k \<in> dirty q then q
      else if k \<in> processing q then q\<lparr>dirty := insert k (dirty q)\<rparr>
      else q\<lparr>dirty := insert k (dirty q), queue := queue q @ [k]\<rparr>)"

text \<open>\<open>get()\<close> blocks until an item is available or the queue is shut down, and marks
  the key as processing. \<open>Waits\<close> stands for a call that does not return in this state.\<close>

datatype dequeued = Item string workqueue | Quit | Waits

definition Get :: "workqueue \<Rightarrow> dequeued" where
  "Get q =
     (case queue q of
        [] \<Rightarrow> if shuttingDown q then Quit else Waits
      | k # rest \<Rightarrow>
          Item k (q\<lparr>queue := rest, processing := insert k (processing q),
                    dirty := dirty q - {k}\<rparr>))"

text \<open>\<open>done(key)\<close>: releases the in-flight marker; a key added meanwhile is re-queued.\<close>

definition Done :: "string \<Rightarrow> workqueue \<Rightarrow> workqueue" where
  "Done k q =
     (let q' = q\<lparr>processing := processing q - {k}\<rparr>
      in if k \<in> dirty q' then q'\<lparr>queue := queue q' @ [k]\<rparr> else q')"

text \<open>\<open>addRateLimited(key)\<close>: the failure count of the key goes up by one and the key is
  inserted after a delay; until the delay elapses it sits in \<open>waiting\<close>.\<close>

definition AddRateLimited :: "string \<Rightarrow> workqueue \<Rightarrow> workqueue" where
  "AddRateLimited k q =
     (let q' = q\<lparr>failures := (failures q)(k := Suc (failures q k))\<rparr>
      in if shuttingDown q' then q' else q'\<lparr>waiting := waiting q' @ [k]\<rparr>)"

text \<open>The delay of a waiting key elapses: the key is added.\<close>

definition delayElapsed :: "string \<Rightarrow> workqueue \<Rightarrow> workqueue" where
  "delayElapsed k q = Add k (q\<lparr>waiting := remove1 k (waiting q)\<rparr>)"

definition Forget :: "string \<Rightarrow> workqueue \<Rightarrow> workqueue" where
  "Forget k q = q\<lparr>failures := (failures q)(k := 0)\<rparr>"

definition NumRequeues :: "string \<Rightarrow> workqueue \<Rightarrow> int" where
  "NumRequeues k q = int (failures q k)"

definition ShutDown :: "workqueue \<Rightarrow> workqueue" where
  "ShutDown q = q\<lparr>shuttingDown := True\<rparr>"

section \<open>The state the controllers act on\<close>

text \<open>
  Every call a controller makes on a collaborator is recorded, in order, in \<open>calls\<close>;
  the objects in a record are the values the pointers referred to at the time of the
  call. Log lines (\<^verbatim>\<open>klog\<close>, \<^verbatim>\<open>logr\<close>) change nothing the controllers read and are
  left out.
\<close>

datatype indexer_id = IdxAPIBindings | IdxAPIExports | IdxRemoteShardAPIExports

datatype 'o call =
    Queue_Get string
  | Queue_Done string
  | Queue_Add string
  | Queue_AddRateLimited string
  | Queue_Forget string
  | GetByKey_call string
  | Reconcile_call "'o option"
  | PostReconcile_call string "'o option" "'o option" "error option"
  | Lister_Get_call string string
  | reconcile_call 'o
  | commit_call 'o 'o
  | getAPIResourceSchema_call string string
  | ByIndex_call indexer_id string string

text \<open>
  \<^item> \<open>wq\<close>: the controller's work queue;
  \<^item> \<open>sink\<close>: the errors handed to \<^verbatim>\<open>runtime.HandleError\<close>, the process-wide error sink;
  \<^item> \<open>heap\<close>: the objects in memory; a pointer is an index into it, and an allocation
    appends a cell.
\<close>

record 'o world =
  wq :: workqueue
  sink :: "error list"
  calls :: "'o call list"
  heap :: "'o list"

definition HandleError :: "error \<Rightarrow> ('o, 'z) world_scheme \<Rightarrow> ('o, 'z) world_scheme" where
  "HandleError err w = w\<lparr>sink := sink w @ [err]\<rparr>"

definition queue_Add :: "string \<Rightarrow> ('o, 'z) world_scheme \<Rightarrow> ('o, 'z) world_scheme" where
  "queue_Add k w = w\<lparr>wq := Add k (wq w), calls := calls w @ [Queue_Add k]\<rparr>"

definition queue_AddRateLimited :: "string \<Rightarrow> ('o, 'z) world_scheme \<Rightarrow> ('o, 'z) world_scheme" where
  "queue_AddRateLimited k w =
     w\<lparr>wq := AddRateLimited k (wq w), calls := calls w @ [Queue_AddRateLimited k]\<rparr>"

definition queue_Forget :: "string \<Rightarrow> ('o, 'z) world_scheme \<Rightarrow> ('o, 'z) world_scheme" where
  "queue_Forget k w = w\<lparr>wq := Forget k (wq w), calls := calls w @ [Queue_Forget k]\<rparr>"

definition queue_Done :: "string \<Rightarrow> ('o, 'z) world_scheme \<Rightarrow> ('o, 'z) world_scheme" where
  "queue_Done k w = w\<lparr>wq := Done k (wq w), calls := calls w @ [Queue_Done k]\<rparr>"

text \<open>\<^verbatim>\<open>DeepCopyObject\<close>/\<^verbatim>\<open>DeepCopy\<close> of the object at address \<open>p\<close>: a new cell with
  the same contents; the address of the new cell is returned.\<close>

definition DeepCopy :: "nat \<Rightarrow> 'o world \<Rightarrow> nat \<times> 'o world" where
  "DeepCopy p w = (length (heap w), w\<lparr>heap := heap w @ [heap w ! p]\<rparr>)"

section \<open>The generic controller\<close>

text \<open>
  A \<^verbatim>\<open>Reconciler[O]\<close> is pluggable. \<open>Reconcile\<close> gives the error returned for the
  object handed over (\<open>None\<close> for the zero value of \<^verbatim>\<open>O\<close>, a nil pointer), and
  \<open>Reconcile_mutation\<close> the writes it makes in place through that pointer.
  \<open>PostReconcile\<close> reads the name, the two objects and the error of \<open>Reconcile\<close>.
\<close>

record 'o Reconciler =
  Reconcile :: "'o option \<Rightarrow> error option"
  Reconcile_mutation :: "'o \<Rightarrow> 'o"
  PostReconcile :: "string \<Rightarrow> 'o option \<Rightarrow> 'o option \<Rightarrow> error option \<Rightarrow> error option"

record Options =
  Name :: string
  NumRequeues_opt :: int
  ResyncPeriod :: int

text \<open>The functions of client-go's \<^verbatim>\<open>cache\<close> package that the controllers call; their code
  is not part of the repository, so they are parameters.\<close>

record 'o cache =
  DeletionHandlingMetaNamespaceKeyFunc :: "'o \<Rightarrow> error + string"
  SplitMetaNamespaceKey :: "string \<Rightarrow> error + string \<times> string"

text \<open>The \<^verbatim>\<open>controller\<close> struct. Its \<^verbatim>\<open>queue\<close> is \<open>wq\<close> of the world; \<open>indexer\<close> is
  \<^verbatim>\<open>GetByKey\<close> of the informer's indexer: an error, or the pointer to the object when
  there is one.\<close>

record 'o controller =
  name :: string
  focusType :: string
  indexer :: "string \<Rightarrow> error + nat option"
  recon :: "'o Reconciler"
  numRequeues :: int
  resyncPeriod :: int

text \<open>\<^verbatim>\<open>New\<close>. \<open>T\<close> is \<^verbatim>\<open>fmt.Sprintf("%T", *new(O))\<close>, and \<open>GetIndexer\<close> the indexer of
  the informer. The queue it creates is \<^const>\<open>NewNamedRateLimitingQueue\<close>.\<close>

definition New :: "string \<Rightarrow> (string \<Rightarrow> error + nat option) \<Rightarrow> 'o Reconciler \<Rightarrow> Options \<Rightarrow> 'o controller" where
  "New T GetIndexer r options =
     (let nm = Name options;
          focusType = T;
          numRequeues = 5;
          resyncPeriod = ResyncPeriod options;
          nm = (if nm = [] then focusType @ ''-controller'' else nm);
          numRequeues = (if NumRequeues_opt options = 0 then 5 else numRequeues)
      in \<lparr>name = nm, focusType = focusType, indexer = GetIndexer, recon = r,
          numRequeues = numRequeues, resyncPeriod = resyncPeriod\<rparr>)"

text \<open>\<^verbatim>\<open>Enqueue\<close>, also the handler \<^verbatim>\<open>New\<close> registers for add, update and delete
  events.\<close>

definition Enqueue :: "'o cache \<Rightarrow> 'o controller \<Rightarrow> 'o \<Rightarrow> ('o, 'z) world_scheme \<Rightarrow> ('o, 'z) world_scheme" where
  "Enqueue lib c obj w =
     (case DeletionHandlingMetaNamespaceKeyFunc lib obj of
        Inl err \<Rightarrow> HandleError err w
      | Inr key \<Rightarrow> queue_Add key w)"

definition handleError :: "'o controller \<Rightarrow> error \<Rightarrow> string \<Rightarrow> ('o, 'z) world_scheme \<Rightarrow> ('o, 'z) world_scheme" where
  "handleError c err key w =
     (if NumRequeues key (wq w) < numRequeues c then queue_AddRateLimited key w
      else HandleError err (queue_Forget key w))"

text \<open>The part of \<^verbatim>\<open>processNextItem\<close> that runs between \<^verbatim>\<open>defer c.queue.Done(k)\<close> and
  the deferred call.\<close>

definition processNextItem_body :: "'o cache \<Rightarrow> 'o controller \<Rightarrow> string \<Rightarrow> 'o world \<Rightarrow> 'o world" where
  "processNextItem_body lib c key w =
     (case SplitMetaNamespaceKey lib key of
        Inl err \<Rightarrow> w
      | Inr (ns, clusterAwareName) \<Rightarrow>
          (let w = w\<lparr>calls := calls w @ [GetByKey_call key]\<rparr> in
           case indexer c key of
             Inl err \<Rightarrow> handleError c err key w
           | Inr obj \<Rightarrow>
               (let (prev, cur, w) =
                      (case obj of
                         None \<Rightarrow> (None, None, w)
                       | Some p \<Rightarrow> (let (a, w') = DeepCopy p w in (Some p, Some a, w')));
                    deref = (\<lambda>w x. map_option (\<lambda>a. heap w ! a) x);
                    err = Reconcile (recon c) (deref w cur);
                    w = w\<lparr>calls := calls w @ [Reconcile_call (deref w cur)]\<rparr>;
                    w = (case cur of
                           None \<Rightarrow> w
                         | Some a \<Rightarrow> w\<lparr>heap := (heap w)[a := Reconcile_mutation (recon c) (heap w ! a)]\<rparr>);
                    pErr = PostReconcile (recon c) clusterAwareName (deref w prev) (deref w cur) err;
                    w = w\<lparr>calls := calls w @
                           [PostReconcile_call clusterAwareName (deref w prev) (deref w cur) err]\<rparr>;
                    err = (case pErr of Some e \<Rightarrow> Some e | None \<Rightarrow> err)
                in case err of
                     Some e \<Rightarrow> handleError c e key w
                   | None \<Rightarrow> w)))"

text \<open>\<^verbatim>\<open>processNextItem\<close>: \<open>None\<close> when \<^verbatim>\<open>Get\<close> does not return.\<close>

definition processNextItem :: "'o cache \<Rightarrow> 'o controller \<Rightarrow> 'o world \<Rightarrow> (bool \<times> 'o world) option" where
  "processNextItem lib c w =
     (case Get (wq w) of
        Waits \<Rightarrow> None
      | Quit \<Rightarrow> Some (False, w)
      | Item k q \<Rightarrow>
          (let w = w\<lparr>wq := q, calls := calls w @ [Queue_Get k]\<rparr>
           in Some (True, queue_Done k (processNextItem_body lib c k w))))"

section \<open>Objects delivered by informers\<close>

text \<open>
  What an event handler receives as \<^verbatim>\<open>interface{}\<close>. Of the metadata only what the
  handlers read is kept: the name, the logical cluster (\<^verbatim>\<open>logicalcluster.From\<close>) and the
  annotations.
\<close>

record ObjectMeta =
  GetName :: string
  GetClusterName :: string
  GetAnnotations :: "(string \<times> string) list"

record RoleRef =
  APIGroup :: string
  Kind :: string
  RoleRef_Name :: string

datatype object =
    CustomResourceDefinition ObjectMeta
  | APIResourceSchema ObjectMeta
  | APIExport ObjectMeta
  | APIBinding ObjectMeta
  | ClusterRole ObjectMeta
  | ClusterRoleBinding ObjectMeta RoleRef
  | DeletedFinalStateUnknown string object
  | OtherObject string

text \<open>Reading a Go map: a missing key gives the empty string.\<close>

definition annotation :: "ObjectMeta \<Rightarrow> string \<Rightarrow> string" where
  "annotation m k = (case map_of (GetAnnotations m) k of None \<Rightarrow> [] | Some v \<Rightarrow> v)"

text \<open>The dynamic type, as \<^verbatim>\<open>%T\<close> prints it.\<close>

fun TypeOf :: "object \<Rightarrow> string" where
  "TypeOf (CustomResourceDefinition _) = ''*v1.CustomResourceDefinition''"
| "TypeOf (APIResourceSchema _) = ''*v1alpha1.APIResourceSchema''"
| "TypeOf (APIExport _) = ''*v1alpha1.APIExport''"
| "TypeOf (APIBinding _) = ''*v1alpha1.APIBinding''"
| "TypeOf (ClusterRole _) = ''*v1.ClusterRole''"
| "TypeOf (ClusterRoleBinding _ _) = ''*v1.ClusterRoleBinding''"
| "TypeOf (DeletedFinalStateUnknown _ _) = ''cache.DeletedFinalStateUnknown''"
| "TypeOf (OtherObject t) = t"

text \<open>\<^verbatim>\<open>meta.Accessor\<close>: the metadata of an API object, an error for anything else.\<close>

fun Accessor :: "object \<Rightarrow> error + ObjectMeta" where
  "Accessor (CustomResourceDefinition m) = Inr m"
| "Accessor (APIResourceSchema m) = Inr m"
| "Accessor (APIExport m) = Inr m"
| "Accessor (APIBinding m) = Inr m"
| "Accessor (ClusterRole m) = Inr m"
| "Accessor (ClusterRoleBinding m _) = Inr m"
| "Accessor obj = Inl (Error ''object does not implement the Object interfaces'')"

datatype event = OnAdd object | OnUpdate object object | OnDelete object

text \<open>A handler either returns the new state or panics.\<close>

datatype 'a outcome = Normal 'a | Panic string

section \<open>The APIBinding controller\<close>

text \<open>Constants of the package and of the API package that are declared outside the
  excerpt: parameters.\<close>

record constants =
  AnnotationSchemaClusterKey :: string
  AnnotationSchemaNameKey :: string
  indexAPIBindingsByWorkspaceExport :: string
  indexAPIExportsByAPIResourceSchema :: string

definition ShadowWorkspaceName :: string where
  "ShadowWorkspaceName = ''system:bound-crds''"

text \<open>The \<^verbatim>\<open>reconciler\<close> struct, as far as the enqueue functions use it. An indexer is
  its \<^verbatim>\<open>ByIndex\<close>, from the index name and the indexed value to the objects.
  \<^verbatim>\<open>deletedCRDTracker\<close> is part of the state.\<close>

record reconciler =
  apiBindingsIndexer :: "string \<Rightarrow> string \<Rightarrow> error + object list"
  apiExportsIndexer :: "string \<Rightarrow> string \<Rightarrow> error + object list"
  temporaryRemoteShardApiExportsIndexer :: "string \<Rightarrow> string \<Rightarrow> error + object list"
  getAPIResourceSchema :: "string \<Rightarrow> string \<Rightarrow> error + ObjectMeta"
  ctl :: "object controller"

record 'o apibinding_world = "'o world" +
  deletedCRDTracker :: "string set"

type_synonym state = "object apibinding_world"

text \<open>The loop of \<^verbatim>\<open>enqueueAPIExport\<close> over the bindings found.\<close>

fun enqueueAPIExport_bindings :: "object cache \<Rightarrow> reconciler \<Rightarrow> object \<Rightarrow> object list \<Rightarrow> state \<Rightarrow> state outcome" where
  "enqueueAPIExport_bindings lib c obj [] w = Normal w"
| "enqueueAPIExport_bindings lib c obj (binding # rest) w =
     (case binding of
        APIBinding b \<Rightarrow>
          (case obj of
             APIExport e \<Rightarrow> enqueueAPIExport_bindings lib c obj rest (Enqueue lib (ctl c) binding w)
           | _ \<Rightarrow> Panic (''interface conversion: interface {} is '' @ TypeOf obj @ '', not *v1alpha1.APIExport''))
      | _ \<Rightarrow> Panic ''APIBinding controller expected *APIBinding from enqueueAPIExport'')"

definition enqueueAPIExport :: "object cache \<Rightarrow> constants \<Rightarrow> reconciler \<Rightarrow> object \<Rightarrow> state \<Rightarrow> state outcome" where
  "enqueueAPIExport lib K c obj w =
     (case DeletionHandlingMetaNamespaceKeyFunc lib obj of
        Inl err \<Rightarrow> Normal (HandleError err w)
      | Inr key \<Rightarrow>
          (let w = w\<lparr>calls := calls w @ [ByIndex_call IdxAPIBindings (indexAPIBindingsByWorkspaceExport K) key]\<rparr> in
           case apiBindingsIndexer c (indexAPIBindingsByWorkspaceExport K) key of
             Inl err \<Rightarrow> Normal (HandleError err w)
           | Inr bindingsForExport \<Rightarrow> enqueueAPIExport_bindings lib c obj bindingsForExport w))"

text \<open>The loop of \<^verbatim>\<open>enqueueAPIResourceSchema\<close> over the exports found.\<close>

fun enqueueAPIResourceSchema_exports :: "object cache \<Rightarrow> constants \<Rightarrow> reconciler \<Rightarrow> object \<Rightarrow> object list \<Rightarrow> state \<Rightarrow> state outcome" where
  "enqueueAPIResourceSchema_exports lib K c obj [] w = Normal w"
| "enqueueAPIResourceSchema_exports lib K c obj (export # rest) w =
     (case obj of
        APIResourceSchema s \<Rightarrow>
          (case enqueueAPIExport lib K c export w of
             Panic msg \<Rightarrow> Panic msg
           | Normal w' \<Rightarrow> enqueueAPIResourceSchema_exports lib K c obj rest w')
      | _ \<Rightarrow> Panic (''interface conversion: interface {} is '' @ TypeOf obj @ '', not *v1alpha1.APIResourceSchema''))"

definition enqueueAPIResourceSchema :: "object cache \<Rightarrow> constants \<Rightarrow> reconciler \<Rightarrow> object \<Rightarrow> state \<Rightarrow> state outcome" where
  "enqueueAPIResourceSchema lib K c obj w =
     (case DeletionHandlingMetaNamespaceKeyFunc lib obj of
        Inl err \<Rightarrow> Normal (HandleError err w)
      | Inr key \<Rightarrow>
          (let w = w\<lparr>calls := calls w @ [ByIndex_call IdxAPIExports (indexAPIExportsByAPIResourceSchema K) key]\<rparr> in
           case apiExportsIndexer c (indexAPIExportsByAPIResourceSchema K) key of
             Inl err \<Rightarrow> Normal (HandleError err w)
           | Inr apiExports \<Rightarrow>
               if length apiExports = 0 then
                 (let w = w\<lparr>calls := calls w @
                            [ByIndex_call IdxRemoteShardAPIExports (indexAPIExportsByAPIResourceSchema K) key]\<rparr> in
                  case temporaryRemoteShardApiExportsIndexer c (indexAPIExportsByAPIResourceSchema K) key of
                    Inl err \<Rightarrow> Normal (HandleError err w)
                  | Inr apiExports \<Rightarrow> enqueueAPIResourceSchema_exports lib K c obj apiExports w)
               else enqueueAPIResourceSchema_exports lib K c obj apiExports w))"

definition enqueueCRD :: "object cache \<Rightarrow> constants \<Rightarrow> reconciler \<Rightarrow> object \<Rightarrow> state \<Rightarrow> state outcome" where
  "enqueueCRD lib K c obj w =
     (case obj of
        CustomResourceDefinition crd \<Rightarrow>
          if annotation crd (AnnotationSchemaClusterKey K) = [] \<or> annotation crd (AnnotationSchemaNameKey K) = []
          then Normal w
          else
            (let clusterName = annotation crd (AnnotationSchemaClusterKey K);
                 w = w\<lparr>calls := calls w @
                        [getAPIResourceSchema_call clusterName (annotation crd (AnnotationSchemaNameKey K))]\<rparr> in
             case getAPIResourceSchema c clusterName (annotation crd (AnnotationSchemaNameKey K)) of
               Inl err \<Rightarrow> Normal (HandleError err w)
             | Inr apiResourceSchema \<Rightarrow>
                 enqueueAPIResourceSchema lib K c (APIResourceSchema apiResourceSchema) w)
      | _ \<Rightarrow>
          Normal (HandleError
            (Error (''obj is supposed to be a CustomResourceDefinition, but is '' @ TypeOf obj)) w))"

text \<open>The handler registered on the CRD informer: \<^verbatim>\<open>FilterFunc\<close> and the three
  handler functions.\<close>

definition FilterFunc :: "object \<Rightarrow> bool" where
  "FilterFunc obj =
     (case obj of
        CustomResourceDefinition crd \<Rightarrow> GetClusterName crd = ShadowWorkspaceName
      | _ \<Rightarrow> False)"

definition AddFunc :: "object cache \<Rightarrow> constants \<Rightarrow> reconciler \<Rightarrow> object \<Rightarrow> state \<Rightarrow> state outcome" where
  "AddFunc lib K c obj w = enqueueCRD lib K c obj w"

definition UpdateFunc :: "object cache \<Rightarrow> constants \<Rightarrow> reconciler \<Rightarrow> object \<Rightarrow> object \<Rightarrow> state \<Rightarrow> state outcome" where
  "UpdateFunc lib K c oldObj obj w = enqueueCRD lib K c obj w"

definition DeleteFunc :: "object cache \<Rightarrow> constants \<Rightarrow> reconciler \<Rightarrow> object \<Rightarrow> state \<Rightarrow> state outcome" where
  "DeleteFunc lib K c obj w =
     (case Accessor obj of
        Inl err \<Rightarrow> Normal (HandleError err w)
      | Inr m \<Rightarrow>
          enqueueCRD lib K c obj (w\<lparr>deletedCRDTracker := insert (GetName m) (deletedCRDTracker w)\<rparr>))"

text \<open>How client-go's \<^verbatim>\<open>cache.FilteringResourceEventHandler\<close> hands an event to the
  handler functions: an added or deleted object must pass the filter; an update is an
  update when both versions pass, an add of the new version when only that passes, a
  delete of the old version when only that passes, and nothing otherwise.\<close>

definition FilteringResourceEventHandler :: "object cache \<Rightarrow> constants \<Rightarrow> reconciler \<Rightarrow> event \<Rightarrow> state \<Rightarrow> state outcome" where
  "FilteringResourceEventHandler lib K c ev w =
     (case ev of
        OnAdd obj \<Rightarrow> if \<not> FilterFunc obj then Normal w else AddFunc lib K c obj w
      | OnUpdate oldObj newObj \<Rightarrow>
          (let newer = FilterFunc newObj; older = FilterFunc oldObj in
           if newer \<and> older then UpdateFunc lib K c oldObj newObj w
           else if newer \<and> \<not> older then AddFunc lib K c newObj w
           else if \<not> newer \<and> older then DeleteFunc lib K c oldObj w
           else Normal w)
      | OnDelete obj \<Rightarrow> if \<not> FilterFunc obj then Normal w else DeleteFunc lib K c obj w)"

section \<open>The ClusterRole replication controller\<close>

text \<open>The functions of \<^verbatim>\<open>kcpcache\<close> (kcp-dev/apimachinery) the controller calls:
  parameters.\<close>

record kcpcache =
  DeletionHandlingMetaClusterNamespaceKeyFunc :: "object \<Rightarrow> error + string"
  SplitMetaClusterNamespaceKey :: "string \<Rightarrow> error + string \<times> string \<times> string"

definition ControllerName :: string where
  "ControllerName = ''kcp-apiexport-replication-clusterrole''"

text \<open>\<^verbatim>\<open>rbacv1.GroupName\<close>.\<close>

definition GroupName :: string where
  "GroupName = ''rbac.authorization.k8s.io''"

text \<open>
  The \<^verbatim>\<open>controller\<close> struct of the package. \<open>clusterRoleLister\<close> is
  \<^verbatim>\<open>clusterRoleLister.Cluster(cluster).Get(name)\<close>: an error or the pointer to the
  ClusterRole in the informer's cache. The method \<^verbatim>\<open>reconcile\<close> is declared in another
  file of the package and \<^verbatim>\<open>commit\<close> is built by the committer package; both are
  parameters: \<open>reconcile\<close> gives what the method returns for the object handed over and
  \<open>reconcile_mutation\<close> the writes it makes in place through the pointer; \<open>commit\<close>
  reads the two objects and returns the error of the write.
\<close>

record replicationclusterrole =
  clusterRoleLister :: "string \<Rightarrow> string \<Rightarrow> error + nat"
  reconcile :: "object \<Rightarrow> bool \<times> error option"
  reconcile_mutation :: "object \<Rightarrow> object"
  commit :: "object \<Rightarrow> object \<Rightarrow> error option"

definition enqueueClusterRole :: "kcpcache \<Rightarrow> object \<Rightarrow> object world \<Rightarrow> object world" where
  "enqueueClusterRole lib obj w =
     (case DeletionHandlingMetaClusterNamespaceKeyFunc lib obj of
        Inl err \<Rightarrow> HandleError err w
      | Inr key \<Rightarrow> queue_Add key w)"

definition enqueueClusterRoleBinding :: "kcpcache \<Rightarrow> replicationclusterrole \<Rightarrow> object \<Rightarrow> object world \<Rightarrow> object world" where
  "enqueueClusterRoleBinding lib c obj w =
     (let obj = (case obj of DeletedFinalStateUnknown k tombstoneObj \<Rightarrow> tombstoneObj | _ \<Rightarrow> obj) in
      case obj of
        ClusterRoleBinding crb roleRef \<Rightarrow>
          if Kind roleRef \<noteq> ''ClusterRole'' \<or> APIGroup roleRef \<noteq> GroupName then w
          else
            (let w = w\<lparr>calls := calls w @ [Lister_Get_call (GetClusterName crb) (RoleRef_Name roleRef)]\<rparr> in
             case clusterRoleLister c (GetClusterName crb) (RoleRef_Name roleRef) of
               Inl err \<Rightarrow> HandleError err w
             | Inr cr \<Rightarrow> enqueueClusterRole lib (heap w ! cr) w)
      | _ \<Rightarrow> HandleError (Error (''unexpected type '' @ TypeOf obj)) w)"

text \<open>The handlers registered on the ClusterRoleBinding informer.\<close>

definition clusterRoleBindingEventHandler :: "kcpcache \<Rightarrow> replicationclusterrole \<Rightarrow> event \<Rightarrow> object world \<Rightarrow> object world" where
  "clusterRoleBindingEventHandler lib c ev w =
     (case ev of
        OnAdd obj \<Rightarrow> enqueueClusterRoleBinding lib c obj w
      | OnUpdate oldObj newObj \<Rightarrow> enqueueClusterRoleBinding lib c newObj w
      | OnDelete obj \<Rightarrow> enqueueClusterRoleBinding lib c obj w)"

text \<open>\<^verbatim>\<open>process\<close> returns the requeue flag and the error, with the new state.\<close>

definition process :: "kcpcache \<Rightarrow> replicationclusterrole \<Rightarrow> string \<Rightarrow> object world \<Rightarrow> bool \<times> error option \<times> object world" where
  "process lib c key w =
     (case SplitMetaClusterNamespaceKey lib key of
        Inl err \<Rightarrow> (False, None, HandleError err w)
      | Inr (parent, ns, nm) \<Rightarrow>
          (let w = w\<lparr>calls := calls w @ [Lister_Get_call parent nm]\<rparr> in
           case clusterRoleLister c parent nm of
             Inl err \<Rightarrow> if IsNotFound err then (False, None, w) else (False, Some err, w)
           | Inr cr \<Rightarrow>
               (let old = cr;
                    (cr, w) = DeepCopy cr w;
                    errs = [];
                    (requeue, err) = reconcile c (heap w ! cr);
                    w = w\<lparr>calls := calls w @ [reconcile_call (heap w ! cr)]\<rparr>;
                    w = w\<lparr>heap := (heap w)[cr := reconcile_mutation c (heap w ! cr)]\<rparr>;
                    errs = (case err of Some e \<Rightarrow> errs @ [e] | None \<Rightarrow> errs);
                    cerr = commit c (heap w ! old) (heap w ! cr);
                    w = w\<lparr>calls := calls w @ [commit_call (heap w ! old) (heap w ! cr)]\<rparr>;
                    errs = (case cerr of Some e \<Rightarrow> errs @ [e] | None \<Rightarrow> errs)
                in (requeue, NewAggregate errs, w))))"

text \<open>\<^verbatim>\<open>%q\<close> of a string without characters to escape.\<close>

definition quoted :: "string \<Rightarrow> string" where
  "quoted s = CHR 0x22 # s @ [CHR 0x22]"

text \<open>\<^verbatim>\<open>processNextWorkItem\<close>: \<open>None\<close> when \<^verbatim>\<open>Get\<close> does not return.\<close>

definition processNextWorkItem :: "kcpcache \<Rightarrow> replicationclusterrole \<Rightarrow> object world \<Rightarrow> (bool \<times> object world) option" where
  "processNextWorkItem lib c w =
     (case Get (wq w) of
        Waits \<Rightarrow> None
      | Quit \<Rightarrow> Some (False, w)
      | Item key q \<Rightarrow>
          (let w = w\<lparr>wq := q, calls := calls w @ [Queue_Get key]\<rparr>;
               (requeue, err, w) = process lib c key w;
               w = (case err of
                      Some e \<Rightarrow>
                        queue_AddRateLimited key
                          (HandleError
                             (Wrapped (quoted ControllerName @ '' controller failed to sync '' @ quoted key @ '', err: '') e)
                             w)
                    | None \<Rightarrow> if requeue then queue_Add key w else queue_Forget key w)
           in Some (True, queue_Done key w)))"

section \<open>Workers running side by side\<close>

text \<open>
  \<^verbatim>\<open>Start\<close> launches \<^verbatim>\<open>numWorkers\<close> goroutines that share the queue. The queue
  serialises its operations, so a run of the system is a sequence of queue operations:
  anybody may add a key, schedule a retry, reset a counter or shut the queue down at any
  time; an idle worker may take the key \<open>Get\<close> hands out; a worker holding a key may
  call \<open>Done\<close> for it, which is what the deferred call of \<^verbatim>\<open>processNextItem\<close> and of
  \<^verbatim>\<open>processNextWorkItem\<close> does once processing is over. Workers are numbered;
  \<open>holding s n\<close> is the key worker \<open>n\<close> is processing.
\<close>

record system =
  squeue :: workqueue
  holding :: "nat \<Rightarrow> string option"

definition initial :: system where
  "initial = \<lparr>squeue = NewNamedRateLimitingQueue, holding = (\<lambda>_. None)\<rparr>"

inductive step :: "system \<Rightarrow> system \<Rightarrow> bool" where
  step_Add: "step s (s\<lparr>squeue := Add k (squeue s)\<rparr>)"
| step_AddRateLimited: "step s (s\<lparr>squeue := AddRateLimited k (squeue s)\<rparr>)"
| step_delayElapsed: "k \<in> set (waiting (squeue s)) \<Longrightarrow> step s (s\<lparr>squeue := delayElapsed k (squeue s)\<rparr>)"
| step_Forget: "step s (s\<lparr>squeue := Forget k (squeue s)\<rparr>)"
| step_ShutDown: "step s (s\<lparr>squeue := ShutDown (squeue s)\<rparr>)"
| step_Get: "holding s n = None \<Longrightarrow> Get (squeue s) = Item k q \<Longrightarrow>
             step s (s\<lparr>squeue := q, holding := (holding s)(n := Some k)\<rparr>)"
| step_Done: "holding s n = Some k \<Longrightarrow>
              step s (s\<lparr>squeue := Done k (squeue s), holding := (holding s)(n := None)\<rparr>)"

definition reachable :: "system \<Rightarrow> bool" where
  "reachable s = step\<^sup>*\<^sup>* initial s"

section \<open>Concrete instances\<close>

text \<open>Instances of the parameters, for evaluating the model at concrete inputs. Keys
  are written \<open>cluster|name\<close>.\<close>

definition example_kcpcache :: kcpcache where
  "example_kcpcache =
     \<lparr>DeletionHandlingMetaClusterNamespaceKeyFunc =
        (\<lambda>obj. case Accessor obj of Inl e \<Rightarrow> Inl e | Inr m \<Rightarrow> Inr (GetClusterName m @ ''|'' @ GetName m)),
      SplitMetaClusterNamespaceKey =
        (\<lambda>key. Inr (takeWhile (\<lambda>ch. ch \<noteq> CHR ''|'') key, [], tl (dropWhile (\<lambda>ch. ch \<noteq> CHR ''|'') key)))\<rparr>"

text \<open>A replication controller whose \<^verbatim>\<open>reconcile\<close> fails for every object.\<close>

definition failing_replication :: replicationclusterrole where
  "failing_replication =
     \<lparr>clusterRoleLister =
        (\<lambda>cluster nm. if cluster = ''root'' \<and> nm = ''admin'' then Inr 0 else Inl (StatusNotFound nm)),
      reconcile = (\<lambda>obj. (False, Some (Error ''reconcile failed''))),
      reconcile_mutation = (\<lambda>obj. obj),
      commit = (\<lambda>old new. None)\<rparr>"

text \<open>The key \<open>root|admin\<close> is queued and has already been retried 100 times.\<close>

definition retried_world :: "object world" where
  "retried_world =
     \<lparr>wq = \<lparr>queue = [''root|admin''], dirty = {''root|admin''}, processing = {},
            failures = (\<lambda>k. if k = ''root|admin'' then 100 else 0), waiting = [], shuttingDown = False\<rparr>,
      sink = [], calls = [],
      heap = [ClusterRole \<lparr>GetName = ''admin'', GetClusterName = ''root'', GetAnnotations = []\<rparr>]\<rparr>"

text \<open>An instance of the generic controller over objects that are strings, with a
  reconciler that fails in both hooks; \<open>example_world n\<close> has the key \<open>k\<close> queued after
  \<open>n\<close> retries, and the object of the key at address 0.\<close>

definition example_cache :: "string cache" where
  "example_cache =
     \<lparr>DeletionHandlingMetaNamespaceKeyFunc = (\<lambda>obj. Inr obj),
      SplitMetaNamespaceKey = (\<lambda>key. Inr ([], key))\<rparr>"

definition failing_recon :: "string Reconciler" where
  "failing_recon =
     \<lparr>Reconcile = (\<lambda>obj. Some (Error ''reconcile failed'')),
      Reconcile_mutation = (\<lambda>obj. obj @ ''+status''),
      PostReconcile = (\<lambda>nm prev cur err. Some (Error ''post failed''))\<rparr>"

definition example_controller :: "string controller" where
  "example_controller =
     New ''string'' (\<lambda>key. if key = ''k'' then Inr (Some 0) else Inr None) failing_recon
       \<lparr>Name = [], NumRequeues_opt = 0, ResyncPeriod = 0\<rparr>"

definition example_world :: "nat \<Rightarrow> string world" where
  "example_world n =
     \<lparr>wq = \<lparr>queue = [''k''], dirty = {''k''}, processing = {},
            failures = (\<lambda>k. if k = ''k'' then n else 0), waiting = [], shuttingDown = False\<rparr>,
      sink = [], calls = [], heap = [''spec'']\<rparr>"

text \<open>The keys for which \<open>Done\<close> was called, in the order of the calls.\<close>

definition Done_calls :: "'o call list \<Rightarrow> string list" where
  "Done_calls cs = concat (map (\<lambda>x. case x of Queue_Done k \<Rightarrow> [k] | _ \<Rightarrow> []) cs)"

text \<open>The key \<open>gone\<close> is queued and the store has no object for it.\<close>

definition deleted_world :: "string world" where
  "deleted_world =
     \<lparr>wq = \<lparr>queue = [''gone''], dirty = {''gone''}, processing = {},
            failures = (\<lambda>k. 0), waiting = [], shuttingDown = False\<rparr>,
      sink = [], calls = [], heap = []\<rparr>"

text \<open>A replication controller whose \<^verbatim>\<open>reconcile\<close> renames the object it is given.\<close>

definition labelling_replication :: replicationclusterrole where
  "labelling_replication =
     \<lparr>clusterRoleLister =
        (\<lambda>cluster nm. if cluster = ''root'' \<and> nm = ''admin'' then Inr 0 else Inl (StatusNotFound nm)),
      reconcile = (\<lambda>obj. (False, None)),
      reconcile_mutation = (\<lambda>obj. ClusterRole \<lparr>GetName = ''admin'', GetClusterName = ''root'',
                                      GetAnnotations = [(''replicate'', ''true'')]\<rparr>),
      commit = (\<lambda>old new. None)\<rparr>"

text \<open>The key \<open>root|ghost\<close> is queued; the lister has no ClusterRole of that name.\<close>

definition vanished_world :: "object world" where
  "vanished_world =
     \<lparr>wq = \<lparr>queue = [''root|ghost''], dirty = {''root|ghost''}, processing = {},
            failures = (\<lambda>k. if k = ''root|ghost'' then 3 else 0), waiting = [], shuttingDown = False\<rparr>,
      sink = [], calls = [],
      heap = [ClusterRole \<lparr>GetName = ''admin'', GetClusterName = ''root'', GetAnnotations = []\<rparr>]\<rparr>"

text \<open>The invariant of the runs: the ready keys are distinct, marked dirty and not in
  flight; the keys in flight are the keys held by workers; no key is held twice.\<close>

definition exclusive :: "system \<Rightarrow> bool" where
  "exclusive s =
     (distinct (queue (squeue s))
      \<and> (\<forall>k \<in> set (queue (squeue s)). k \<in> dirty (squeue s) \<and> k \<notin> processing (squeue s))
      \<and> (\<forall>k. k \<in> processing (squeue s) \<longleftrightarrow> (\<exists>n. holding s n = Some k))
      \<and> (\<forall>n m k. holding s n = Some k \<and> holding s m = Some k \<longrightarrow> n = m))"

text \<open>A run: the key \<open>a\<close> is added, worker 0 takes it, and \<open>a\<close> is added again while
  worker 0 is still processing it.\<close>

definition example_system :: system where
  "example_system =
     \<lparr>squeue = \<lparr>queue = [], dirty = {''a''}, processing = {''a''}, failures = (\<lambda>_. 0),
                waiting = [], shuttingDown = False\<rparr>,
      holding = (\<lambda>_. None)(0 := Some ''a'')\<rparr>"

text \<open>The number of lookups made in the remote-shard APIExport indexer.\<close>

definition remote_lookups :: "'o call list \<Rightarrow> nat" where
  "remote_lookups cs =
     length (filter (\<lambda>x. case x of ByIndex_call IdxRemoteShardAPIExports _ _ \<Rightarrow> True | _ \<Rightarrow> False) cs)"

text \<open>
  The chain CRD, schema, export, binding in the words of the specification. \<open>keyOf\<close> is the
  key of an object and \<open>lookup\<close> the objects an indexer returns (nothing on an error).
  The exports of a schema are those the local index returns for the key of the schema,
  and those of the remote-shard index when the local index returns none; the bindings of
  an export are those the bindings-by-export index returns for the key of the export; the
  dependents of a schema are the bindings of its exports. \<open>chain_ok\<close> holds when every
  key derivation and index lookup on the way succeeds and returns objects of the expected
  kind.
\<close>

definition keyOf :: "object cache \<Rightarrow> object \<Rightarrow> string" where
  "keyOf lib obj = (case DeletionHandlingMetaNamespaceKeyFunc lib obj of Inr k \<Rightarrow> k | Inl _ \<Rightarrow> [])"

definition lookup :: "(string \<Rightarrow> string \<Rightarrow> error + object list) \<Rightarrow> string \<Rightarrow> string \<Rightarrow> object list" where
  "lookup ix nm key = (case ix nm key of Inr objs \<Rightarrow> objs | Inl _ \<Rightarrow> [])"

definition exportsOf :: "object cache \<Rightarrow> constants \<Rightarrow> reconciler \<Rightarrow> object \<Rightarrow> object list" where
  "exportsOf lib K c schema =
     (let local = lookup (apiExportsIndexer c) (indexAPIExportsByAPIResourceSchema K) (keyOf lib schema)
      in if local = []
         then lookup (temporaryRemoteShardApiExportsIndexer c) (indexAPIExportsByAPIResourceSchema K) (keyOf lib schema)
         else local)"

definition bindingsOf :: "object cache \<Rightarrow> constants \<Rightarrow> reconciler \<Rightarrow> object \<Rightarrow> object list" where
  "bindingsOf lib K c export =
     lookup (apiBindingsIndexer c) (indexAPIBindingsByWorkspaceExport K) (keyOf lib export)"

definition dependents :: "object cache \<Rightarrow> constants \<Rightarrow> reconciler \<Rightarrow> object \<Rightarrow> object list" where
  "dependents lib K c schema = concat (map (bindingsOf lib K c) (exportsOf lib K c schema))"

definition isOk :: "error + 'a \<Rightarrow> bool" where
  "isOk r = (case r of Inr _ \<Rightarrow> True | Inl _ \<Rightarrow> False)"

definition binding_ok :: "object cache \<Rightarrow> object \<Rightarrow> bool" where
  "binding_ok lib b =
     ((case b of APIBinding _ \<Rightarrow> True | _ \<Rightarrow> False) \<and> isOk (DeletionHandlingMetaNamespaceKeyFunc lib b))"

definition export_ok :: "object cache \<Rightarrow> constants \<Rightarrow> reconciler \<Rightarrow> object \<Rightarrow> bool" where
  "export_ok lib K c e =
     ((case e of APIExport _ \<Rightarrow> True | _ \<Rightarrow> False)
      \<and> isOk (DeletionHandlingMetaNamespaceKeyFunc lib e)
      \<and> isOk (apiBindingsIndexer c (indexAPIBindingsByWorkspaceExport K) (keyOf lib e))
      \<and> list_all (binding_ok lib) (bindingsOf lib K c e))"

definition chain_ok :: "object cache \<Rightarrow> constants \<Rightarrow> reconciler \<Rightarrow> object \<Rightarrow> bool" where
  "chain_ok lib K c schema =
     (isOk (DeletionHandlingMetaNamespaceKeyFunc lib schema)
      \<and> isOk (apiExportsIndexer c (indexAPIExportsByAPIResourceSchema K) (keyOf lib schema))
      \<and> (lookup (apiExportsIndexer c) (indexAPIExportsByAPIResourceSchema K) (keyOf lib schema) = [] \<longrightarrow>
           isOk (temporaryRemoteShardApiExportsIndexer c (indexAPIExportsByAPIResourceSchema K) (keyOf lib schema)))
      \<and> list_all (export_ok lib K c) (exportsOf lib K c schema))"

text \<open>An object the CRD handlers skip, in the words of the claim: not a
  CustomResourceDefinition, or not in the shadow workspace, or one of the two schema
  annotations is empty.\<close>

definition skipped :: "constants \<Rightarrow> object \<Rightarrow> bool" where
  "skipped K obj =
     (case obj of
        CustomResourceDefinition crd \<Rightarrow>
          GetClusterName crd \<noteq> ShadowWorkspaceName
          \<or> annotation crd (AnnotationSchemaClusterKey K) = []
          \<or> annotation crd (AnnotationSchemaNameKey K) = []
      | _ \<Rightarrow> True)"

text \<open>An APIBinding controller: the CRD \<open>widgets.example.io\<close> of the shadow workspace is
  annotated with the schema \<open>today.widgets\<close> of cluster \<open>root\<close>; the local index knows
  the export \<open>widgets\<close> of that schema, bound by \<open>b1\<close> and \<open>b2\<close>; the remote-shard index
  knows the export \<open>widgets-remote\<close> of the same schema, bound by \<open>b3\<close>.\<close>

definition example_object_cache :: "object cache" where
  "example_object_cache =
     \<lparr>DeletionHandlingMetaNamespaceKeyFunc =
        (\<lambda>obj. case obj of
                 DeletedFinalStateUnknown k _ \<Rightarrow> Inr k
               | _ \<Rightarrow> (case Accessor obj of Inl e \<Rightarrow> Inl e
                        | Inr m \<Rightarrow> Inr (GetClusterName m @ ''|'' @ GetName m))),
      SplitMetaNamespaceKey = (\<lambda>key. Inr ([], key))\<rparr>"

definition example_constants :: constants where
  "example_constants =
     \<lparr>AnnotationSchemaClusterKey = ''schema-cluster'', AnnotationSchemaNameKey = ''schema-name'',
      indexAPIBindingsByWorkspaceExport = ''byExport'',
      indexAPIExportsByAPIResourceSchema = ''bySchema''\<rparr>"

definition bound_crd :: object where
  "bound_crd =
     CustomResourceDefinition
       \<lparr>GetName = ''widgets.example.io'', GetClusterName = ''system:bound-crds'',
        GetAnnotations = [(''schema-cluster'', ''root''), (''schema-name'', ''today.widgets'')]\<rparr>"

definition example_binding :: "string \<Rightarrow> string \<Rightarrow> object" where
  "example_binding cluster nm = APIBinding \<lparr>GetName = nm, GetClusterName = cluster, GetAnnotations = []\<rparr>"

definition example_export :: "string \<Rightarrow> object" where
  "example_export nm = APIExport \<lparr>GetName = nm, GetClusterName = ''root'', GetAnnotations = []\<rparr>"

definition example_reconciler :: reconciler where
  "example_reconciler =
     \<lparr>apiBindingsIndexer =
        (\<lambda>ix key. if ix \<noteq> ''byExport'' then Inl (Error ''Index with name does not exist'')
                  else if key = ''root|widgets'' then Inr [example_binding ''ws1'' ''b1'', example_binding ''ws2'' ''b2'']
                  else if key = ''root|widgets-remote'' then Inr [example_binding ''ws3'' ''b3'']
                  else Inr []),
      apiExportsIndexer =
        (\<lambda>ix key. if ix \<noteq> ''bySchema'' then Inl (Error ''Index with name does not exist'')
                  else if key = ''root|today.widgets'' then Inr [example_export ''widgets'']
                  else Inr []),
      temporaryRemoteShardApiExportsIndexer =
        (\<lambda>ix key. if ix \<noteq> ''bySchema'' then Inl (Error ''Index with name does not exist'')
                  else if key = ''root|today.widgets'' then Inr [example_export ''widgets-remote'']
                  else Inr []),
      getAPIResourceSchema =
        (\<lambda>cluster nm. if cluster = ''root'' \<and> nm = ''today.widgets''
                       then Inr \<lparr>GetName = ''today.widgets'', GetClusterName = ''root'', GetAnnotations = []\<rparr>
                       else Inl (StatusNotFound nm)),
      ctl = New ''*v1alpha1.APIBinding'' (\<lambda>key. Inr None)
              \<lparr>Reconcile = (\<lambda>obj. None), Reconcile_mutation = (\<lambda>obj. obj),
               PostReconcile = (\<lambda>nm prev cur err. err)\<rparr>
              \<lparr>Name = ''kcp-apibinding'', NumRequeues_opt = 0, ResyncPeriod = 0\<rparr>\<rparr>"

text \<open>The same controller when the schema named by the annotations is gone.\<close>

definition schemaless_reconciler :: reconciler where
  "schemaless_reconciler =
     example_reconciler\<lparr>getAPIResourceSchema := (\<lambda>cluster nm. Inl (StatusNotFound nm))\<rparr>"

definition empty_state :: state where
  "empty_state =
     \<lparr>wq = NewNamedRateLimitingQueue, sink = [], calls = [], heap = [], deletedCRDTracker = {}\<rparr>"

definition example_schema :: "string \<Rightarrow> object" where
  "example_schema nm = APIResourceSchema \<lparr>GetName = nm, GetClusterName = ''root'', GetAnnotations = []\<rparr>"

text \<open>Objects the handlers have no use for: a CRD outside the shadow workspace, a CRD of
  the shadow workspace without schema annotations, and a ClusterRoleBinding that refers
  to a Role.\<close>

definition foreign_crd :: object where
  "foreign_crd =
     CustomResourceDefinition
       \<lparr>GetName = ''widgets.example.io'', GetClusterName = ''root'',
        GetAnnotations = [(''schema-cluster'', ''root''), (''schema-name'', ''today.widgets'')]\<rparr>"

definition unannotated_crd :: object where
  "unannotated_crd =
     CustomResourceDefinition
       \<lparr>GetName = ''widgets.example.io'', GetClusterName = ''system:bound-crds'',
        GetAnnotations = [(''schema-cluster'', ''root'')]\<rparr>"

definition role_binding :: object where
  "role_binding =
     ClusterRoleBinding \<lparr>GetName = ''viewers'', GetClusterName = ''root'', GetAnnotations = []\<rparr>
       \<lparr>APIGroup = ''rbac.authorization.k8s.io'', Kind = ''Role'', RoleRef_Name = ''admin''\<rparr>"

section \<open>Properties of the generic controller\<close>

text \<open>\<^verbatim>\<open>New\<close> never reads \<^verbatim>\<open>options.NumRequeues\<close> but to compare it with zero: the
  retry bound is 5 whatever the options say.\<close>

lemma New_numRequeues_always_5: "numRequeues (New T ix r options) = 5"
  by (simp add: New_def Let_def)

text \<open>C4, evaluated at \<^verbatim>\<open>Options{Name: "c", NumRequeues: 2}\<close>: the retry bound of the
  controller is 5, not the 2 the options ask for.\<close>

theorem New_numRequeues_ignores_options:
  "numRequeues (New T ix r \<lparr>Name = ''c'', NumRequeues_opt = 2, ResyncPeriod = 0\<rparr>) = 5"
  by (simp add: New_def)

section \<open>The retry policy\<close>

lemma process_wq: "wq (snd (snd (process lib c key w))) = wq w"
  by (simp add: process_def DeepCopy_def HandleError_def Let_def
      split: sum.splits prod.splits option.splits)

lemma Get_Item:
  assumes "Get q = Item k q'"
  shows "failures q' = failures q" and "shuttingDown q' = shuttingDown q"
    and "waiting q' = waiting q" and "queue q = k # queue q'"
    and "processing q' = insert k (processing q)" and "dirty q' = dirty q - {k}"
  using assms by (auto simp: Get_def split: list.splits if_splits)

text \<open>
  C1, as amended. In the generic controller \<^verbatim>\<open>handleError\<close> schedules a rate-limited
  retry of the key exactly while the queue's retry count of the key is below
  \<open>numRequeues\<close>: the counter goes up by one and nothing reaches the error sink.
  Otherwise it resets the counter with \<open>Forget\<close>, hands the error to the sink once and
  adds the key nowhere. The ClusterRole replication controller has no bound: whenever
  \<^verbatim>\<open>process\<close> returns an error, at any retry count, \<^verbatim>\<open>processNextWorkItem\<close> hands the
  wrapped error to the sink and schedules a rate-limited retry.
\<close>

theorem retry_policy:
  fixes w :: "('o, 'z) world_scheme" and v :: "object world"
  shows
  "(NumRequeues key (wq w) < numRequeues c \<longrightarrow>
      failures (wq (handleError c err key w)) key = Suc (failures (wq w) key)
    \<and> waiting (wq (handleError c err key w)) =
        (if shuttingDown (wq w) then waiting (wq w) else waiting (wq w) @ [key])
    \<and> sink (handleError c err key w) = sink w
    \<and> calls (handleError c err key w) = calls w @ [Queue_AddRateLimited key])
 \<and> (\<not> NumRequeues key (wq w) < numRequeues c \<longrightarrow>
      failures (wq (handleError c err key w)) key = 0
    \<and> sink (handleError c err key w) = sink w @ [err]
    \<and> queue (wq (handleError c err key w)) = queue (wq w)
    \<and> dirty (wq (handleError c err key w)) = dirty (wq w)
    \<and> waiting (wq (handleError c err key w)) = waiting (wq w)
    \<and> calls (handleError c err key w) = calls w @ [Queue_Forget key])
 \<and> (Get (wq v) = Item rkey q
      \<and> process lib rc rkey (v\<lparr>wq := q, calls := calls v @ [Queue_Get rkey]\<rparr>) = (requeue, Some e, v1) \<longrightarrow>
      (\<exists>v'. processNextWorkItem lib rc v = Some (True, v')
         \<and> failures (wq v') rkey = Suc (failures (wq v) rkey)
         \<and> waiting (wq v') = (if shuttingDown (wq v) then waiting (wq v) else waiting (wq v) @ [rkey])
         \<and> sink v' = sink v1 @
             [Wrapped (quoted ControllerName @ '' controller failed to sync '' @ quoted rkey @ '', err: '') e]
         \<and> calls v' = calls v1 @ [Queue_AddRateLimited rkey, Queue_Done rkey]))"
proof (intro conjI impI)
  assume "NumRequeues key (wq w) < numRequeues c"
  then have h: "handleError c err key w = queue_AddRateLimited key w"
    by (simp add: handleError_def)
  show "failures (wq (handleError c err key w)) key = Suc (failures (wq w) key)"
    by (simp add: h queue_AddRateLimited_def AddRateLimited_def Let_def)
  show "waiting (wq (handleError c err key w)) =
        (if shuttingDown (wq w) then waiting (wq w) else waiting (wq w) @ [key])"
    by (simp add: h queue_AddRateLimited_def AddRateLimited_def Let_def)
  show "sink (handleError c err key w) = sink w"
    by (simp add: h queue_AddRateLimited_def)
  show "calls (handleError c err key w) = calls w @ [Queue_AddRateLimited key]"
    by (simp add: h queue_AddRateLimited_def)
next
  assume "\<not> NumRequeues key (wq w) < numRequeues c"
  then have h: "handleError c err key w = HandleError err (queue_Forget key w)"
    by (simp add: handleError_def)
  show "failures (wq (handleError c err key w)) key = 0"
    and "sink (handleError c err key w) = sink w @ [err]"
    and "queue (wq (handleError c err key w)) = queue (wq w)"
    and "dirty (wq (handleError c err key w)) = dirty (wq w)"
    and "waiting (wq (handleError c err key w)) = waiting (wq w)"
    and "calls (handleError c err key w) = calls w @ [Queue_Forget key]"
    by (simp_all add: h HandleError_def queue_Forget_def Forget_def)
next
  assume a: "Get (wq v) = Item rkey q
      \<and> process lib rc rkey (v\<lparr>wq := q, calls := calls v @ [Queue_Get rkey]\<rparr>) = (requeue, Some e, v1)"
  then have g: "Get (wq v) = Item rkey q"
    and p: "process lib rc rkey (v\<lparr>wq := q, calls := calls v @ [Queue_Get rkey]\<rparr>) = (requeue, Some e, v1)"
    by simp_all
  from process_wq [of lib rc rkey "v\<lparr>wq := q, calls := calls v @ [Queue_Get rkey]\<rparr>"] p
  have w1: "wq v1 = q" by simp
  note gi = Get_Item(1-3) [OF g]
  show "\<exists>v'. processNextWorkItem lib rc v = Some (True, v')
         \<and> failures (wq v') rkey = Suc (failures (wq v) rkey)
         \<and> waiting (wq v') = (if shuttingDown (wq v) then waiting (wq v) else waiting (wq v) @ [rkey])
         \<and> sink v' = sink v1 @
             [Wrapped (quoted ControllerName @ '' controller failed to sync '' @ quoted rkey @ '', err: '') e]
         \<and> calls v' = calls v1 @ [Queue_AddRateLimited rkey, Queue_Done rkey]"
    using g p w1 gi
    by (simp add: processNextWorkItem_def queue_AddRateLimited_def AddRateLimited_def HandleError_def
        queue_Done_def Done_def Let_def)
qed

lemma example_controller_numRequeues: "numRequeues example_controller = 5"
  by (simp add: example_controller_def New_def)

lemma process_failing_replication:
  "process example_kcpcache failing_replication ''root|admin''
     (retried_world\<lparr>wq := (wq retried_world)\<lparr>queue := [], processing := {''root|admin''}, dirty := {}\<rparr>,
                    calls := calls retried_world @ [Queue_Get ''root|admin'']\<rparr>) =
   (False, Some (Aggregate [Error ''reconcile failed'']),
    \<lparr>wq = (wq retried_world)\<lparr>queue := [], processing := {''root|admin''}, dirty := {}\<rparr>,
      sink = [],
      calls = [Queue_Get ''root|admin'', Lister_Get_call ''root'' ''admin'',
               reconcile_call (heap retried_world ! 0),
               commit_call (heap retried_world ! 0) (heap retried_world ! 0)],
      heap = heap retried_world @ [heap retried_world ! 0]\<rparr>)"
  by (simp add: process_def example_kcpcache_def failing_replication_def retried_world_def
      DeepCopy_def NewAggregate_def Let_def)

theorem retry_policy_witness:
  "NumRequeues ''k'' (wq (example_world 1)) < numRequeues example_controller
   \<and> failures (wq (handleError example_controller (Error ''post failed'') ''k'' (example_world 1))) ''k'' = 2
   \<and> sink (handleError example_controller (Error ''post failed'') ''k'' (example_world 1)) = []
   \<and> \<not> NumRequeues ''k'' (wq (example_world 5)) < numRequeues example_controller
   \<and> failures (wq (handleError example_controller (Error ''post failed'') ''k'' (example_world 5))) ''k'' = 0
   \<and> sink (handleError example_controller (Error ''post failed'') ''k'' (example_world 5)) = [Error ''post failed'']
   \<and> waiting (wq (handleError example_controller (Error ''post failed'') ''k'' (example_world 5))) = []
   \<and> Get (wq retried_world) =
       Item ''root|admin'' ((wq retried_world)\<lparr>queue := [], processing := {''root|admin''}, dirty := {}\<rparr>)
   \<and> failures (wq (snd (the (processNextWorkItem example_kcpcache failing_replication retried_world))))
        ''root|admin'' = 101"
proof -
  have a: "NumRequeues ''k'' (wq (example_world 1)) < numRequeues example_controller"
    by (simp add: example_controller_numRequeues NumRequeues_def example_world_def)
  have b: "\<not> NumRequeues ''k'' (wq (example_world 5)) < numRequeues example_controller"
    by (simp add: example_controller_numRequeues NumRequeues_def example_world_def)
  have g: "Get (wq retried_world) =
       Item ''root|admin'' ((wq retried_world)\<lparr>queue := [], processing := {''root|admin''}, dirty := {}\<rparr>)"
    by (simp add: Get_def retried_world_def)
  note below = retry_policy [where w = "example_world 1" and key = "''k''" and c = example_controller
      and err = "Error ''post failed''", THEN conjunct1, rule_format, OF a]
  note reached = retry_policy [where w = "example_world 5" and key = "''k''" and c = example_controller
      and err = "Error ''post failed''", THEN conjunct2, THEN conjunct1, rule_format, OF b]
  from retry_policy [where v = retried_world and lib = example_kcpcache and rc = failing_replication,
      THEN conjunct2, THEN conjunct2, rule_format, OF conjI, OF g process_failing_replication]
  obtain v' where v': "processNextWorkItem example_kcpcache failing_replication retried_world = Some (True, v')"
    and f: "failures (wq v') ''root|admin'' = Suc (failures (wq retried_world) ''root|admin'')"
    by blast
  from f have "failures (wq v') ''root|admin'' = 101"
    by (simp add: retried_world_def)
  then have r: "failures (wq (snd (the (processNextWorkItem example_kcpcache failing_replication retried_world))))
        ''root|admin'' = 101"
    by (simp add: v')
  from below have b1: "failures (wq (handleError example_controller (Error ''post failed'') ''k'' (example_world 1))) ''k'' = 2"
    and b2: "sink (handleError example_controller (Error ''post failed'') ''k'' (example_world 1)) = []"
    by (simp_all add: example_world_def)
  from reached have r1: "failures (wq (handleError example_controller (Error ''post failed'') ''k'' (example_world 5))) ''k'' = 0"
    and r2: "sink (handleError example_controller (Error ''post failed'') ''k'' (example_world 5)) = [Error ''post failed'']"
    and r3: "waiting (wq (handleError example_controller (Error ''post failed'') ''k'' (example_world 5))) = []"
    by (simp_all add: example_world_def)
  from a b g r b1 b2 r1 r2 r3 show ?thesis by blast
qed

text \<open>C1, refuted as stated: in the replication controller a key whose retry count is
  100, far beyond the bound of 5, and whose processing fails is scheduled for one more
  rate-limited retry; its counter goes to 101 and \<open>Forget\<close> is not called.\<close>

theorem unbounded_retry_counterexample:
  "\<not> NumRequeues ''root|admin'' (wq retried_world) < 5
   \<and> map_option fst (processNextWorkItem example_kcpcache failing_replication retried_world) = Some True
   \<and> failures (wq (snd (the (processNextWorkItem example_kcpcache failing_replication retried_world))))
        ''root|admin'' = 101
   \<and> waiting (wq (snd (the (processNextWorkItem example_kcpcache failing_replication retried_world))))
        = [''root|admin'']
   \<and> calls (snd (the (processNextWorkItem example_kcpcache failing_replication retried_world))) =
       [Queue_Get ''root|admin'', Lister_Get_call ''root'' ''admin'',
        reconcile_call (heap retried_world ! 0),
        commit_call (heap retried_world ! 0) (heap retried_world ! 0),
        Queue_AddRateLimited ''root|admin'', Queue_Done ''root|admin'']
   \<and> length (sink (snd (the (processNextWorkItem example_kcpcache failing_replication retried_world)))) = 1"
  by (simp add: processNextWorkItem_def process_def example_kcpcache_def failing_replication_def
      retried_world_def Get_def DeepCopy_def NewAggregate_def queue_AddRateLimited_def AddRateLimited_def
      HandleError_def queue_Done_def Done_def NumRequeues_def Let_def)

section \<open>Reconcile and PostReconcile\<close>

lemma handleError_frame:
  "heap (handleError c err key w) = heap w"
  "\<exists>x. calls (handleError c err key w) = calls w @ [x] \<and> (x = Queue_AddRateLimited key \<or> x = Queue_Forget key)"
  by (simp_all add: handleError_def queue_AddRateLimited_def queue_Forget_def HandleError_def)

lemma processNextItem_body_found:
  assumes "SplitMetaNamespaceKey lib key = Inr (ns, nm)" and "indexer c key = Inr obj"
    and "\<forall>p. obj = Some p \<longrightarrow> p < length (heap w)"
  shows "processNextItem_body lib c key w =
    (let pv = map_option (\<lambda>p. heap w ! p) obj;
         rerr = Reconcile (recon c) pv;
         cv = map_option (Reconcile_mutation (recon c)) pv;
         w3 = w\<lparr>heap := heap w @ (case pv of None \<Rightarrow> [] | Some x \<Rightarrow> [Reconcile_mutation (recon c) x]),
                calls := calls w @ [GetByKey_call key, Reconcile_call pv, PostReconcile_call nm pv cv rerr]\<rparr>
     in case PostReconcile (recon c) nm pv cv rerr of
          Some pErr \<Rightarrow> handleError c pErr key w3
        | None \<Rightarrow> (case rerr of Some err \<Rightarrow> handleError c err key w3 | None \<Rightarrow> w3))"
proof (cases obj)
  case None
  with assms(1,2) show ?thesis
    by (simp add: processNextItem_body_def Let_def split: option.splits)
next
  case (Some p)
  with assms(3) have "p < length (heap w)" by simp
  with Some assms(1,2) show ?thesis
    by (simp add: processNextItem_body_def DeepCopy_def Let_def nth_append split: option.splits)
qed

text \<open>
  C3, as amended. For a dequeued key that parses and whose lookup succeeds, \<open>Reconcile\<close>
  is called on the copy and then \<open>PostReconcile\<close> is called, whatever \<open>Reconcile\<close>
  returned, with the snapshot, the copy as \<open>Reconcile\<close> left it, and the error of
  \<open>Reconcile\<close>. The error handed to \<^verbatim>\<open>handleError\<close> is the error of \<open>PostReconcile\<close>
  when that is not nil, and the error of \<open>Reconcile\<close> otherwise; the controller does not
  combine the two.
\<close>

theorem postReconcile_after_Reconcile:
  assumes "SplitMetaNamespaceKey lib key = Inr (ns, nm)" and "indexer c key = Inr obj"
    and "\<forall>p. obj = Some p \<longrightarrow> p < length (heap w)"
  shows "\<exists>w3.
      calls w3 = calls w @
        [GetByKey_call key,
         Reconcile_call (map_option (\<lambda>p. heap w ! p) obj),
         PostReconcile_call nm (map_option (\<lambda>p. heap w ! p) obj)
           (map_option (\<lambda>p. Reconcile_mutation (recon c) (heap w ! p)) obj)
           (Reconcile (recon c) (map_option (\<lambda>p. heap w ! p) obj))]
    \<and> wq w3 = wq w \<and> sink w3 = sink w
    \<and> processNextItem_body lib c key w =
        (case PostReconcile (recon c) nm (map_option (\<lambda>p. heap w ! p) obj)
                (map_option (\<lambda>p. Reconcile_mutation (recon c) (heap w ! p)) obj)
                (Reconcile (recon c) (map_option (\<lambda>p. heap w ! p) obj)) of
           Some pErr \<Rightarrow> handleError c pErr key w3
         | None \<Rightarrow>
             (case Reconcile (recon c) (map_option (\<lambda>p. heap w ! p) obj) of
                Some err \<Rightarrow> handleError c err key w3
              | None \<Rightarrow> w3))"
proof -
  let ?pv = "map_option (\<lambda>p. heap w ! p) obj"
  let ?cv = "map_option (Reconcile_mutation (recon c)) ?pv"
  let ?w3 = "w\<lparr>heap := heap w @ (case ?pv of None \<Rightarrow> [] | Some x \<Rightarrow> [Reconcile_mutation (recon c) x]),
                calls := calls w @ [GetByKey_call key, Reconcile_call ?pv,
                  PostReconcile_call nm ?pv ?cv (Reconcile (recon c) ?pv)]\<rparr>"
  have cv: "?cv = map_option (\<lambda>p. Reconcile_mutation (recon c) (heap w ! p)) obj"
    by (simp add: option.map_comp comp_def)
  have "processNextItem_body lib c key w =
        (case PostReconcile (recon c) nm ?pv ?cv (Reconcile (recon c) ?pv) of
           Some pErr \<Rightarrow> handleError c pErr key ?w3
         | None \<Rightarrow> (case Reconcile (recon c) ?pv of Some err \<Rightarrow> handleError c err key ?w3 | None \<Rightarrow> ?w3))"
    using processNextItem_body_found [OF assms] by (simp add: Let_def)
  moreover have "calls ?w3 = calls w @ [GetByKey_call key, Reconcile_call ?pv,
                  PostReconcile_call nm ?pv ?cv (Reconcile (recon c) ?pv)]"
    and "wq ?w3 = wq w" and "sink ?w3 = sink w"
    by simp_all
  ultimately show ?thesis unfolding cv by blast
qed

text \<open>C3, refuted as stated: \<open>Reconcile\<close> and \<open>PostReconcile\<close> both fail, the retry
  bound is reached, and the error that reaches the sink through \<^verbatim>\<open>handleError\<close> is the
  error of \<open>PostReconcile\<close> alone; it does not carry the error of \<open>Reconcile\<close>.\<close>

theorem postReconcile_error_replaces_counterexample:
  "Reconcile (recon example_controller) (Some ''spec'') = Some (Error ''reconcile failed'')
   \<and> PostReconcile (recon example_controller) ''k'' (Some ''spec'') (Some ''spec+status'')
        (Some (Error ''reconcile failed'')) = Some (Error ''post failed'')
   \<and> calls (snd (the (processNextItem example_cache example_controller (example_world 5)))) =
       [Queue_Get ''k'', GetByKey_call ''k'', Reconcile_call (Some ''spec''),
        PostReconcile_call ''k'' (Some ''spec'') (Some ''spec+status'') (Some (Error ''reconcile failed'')),
        Queue_Forget ''k'', Queue_Done ''k'']
   \<and> sink (snd (the (processNextItem example_cache example_controller (example_world 5)))) =
       [Error ''post failed'']
   \<and> \<not> carries (Error ''post failed'') (Error ''reconcile failed'')"
  by (simp add: processNextItem_def processNextItem_body_def example_cache_def example_controller_def
      failing_recon_def example_world_def New_def Get_def DeepCopy_def handleError_def NumRequeues_def
      queue_Forget_def Forget_def HandleError_def queue_Done_def Done_def carries_def Let_def)
theorem postReconcile_after_Reconcile_witness:
  "SplitMetaNamespaceKey example_cache ''k'' = Inr ([], ''k'')
   \<and> indexer example_controller ''k'' = Inr (Some 0)
   \<and> 0 < length (heap (example_world 0))
   \<and> (\<exists>w3. calls w3 =
          [GetByKey_call ''k'', Reconcile_call (Some ''spec''),
           PostReconcile_call ''k'' (Some ''spec'') (Some ''spec+status'') (Some (Error ''reconcile failed''))]
        \<and> processNextItem_body example_cache example_controller ''k'' (example_world 0) =
            handleError example_controller (Error ''post failed'') ''k'' w3)"
proof -
  have s: "SplitMetaNamespaceKey example_cache ''k'' = Inr ([], ''k'')"
    by (simp add: example_cache_def)
  have i: "indexer example_controller ''k'' = Inr (Some 0)"
    by (simp add: example_controller_def New_def)
  have h: "\<forall>p. Some 0 = Some p \<longrightarrow> p < length (heap (example_world 0))"
    by (simp add: example_world_def)
  have r: "recon example_controller = failing_recon"
    by (simp add: example_controller_def New_def)
  have e: "heap (example_world 0) = [''spec'']" "calls (example_world 0) = []"
    by (simp_all add: example_world_def)
  from postReconcile_after_Reconcile [OF s i h]
  have "\<exists>w3. calls w3 =
          [GetByKey_call ''k'', Reconcile_call (Some ''spec''),
           PostReconcile_call ''k'' (Some ''spec'') (Some ''spec+status'') (Some (Error ''reconcile failed''))]
        \<and> processNextItem_body example_cache example_controller ''k'' (example_world 0) =
            handleError example_controller (Error ''post failed'') ''k'' w3"
    by (simp add: r e failing_recon_def) blast
  with s i e show ?thesis by simp
qed

lemma Done_calls_simps [simp]:
  "Done_calls [] = []"
  "Done_calls (xs @ ys) = Done_calls xs @ Done_calls ys"
  "Done_calls (x # xs) = (case x of Queue_Done k \<Rightarrow> [k] | _ \<Rightarrow> []) @ Done_calls xs"
  by (simp_all add: Done_calls_def)

lemma handleError_Done_calls:
  "Done_calls (calls (handleError c err key w)) = Done_calls (calls w)"
  "processing (wq (handleError c err key w)) = processing (wq w)"
  by (simp_all add: handleError_def queue_AddRateLimited_def queue_Forget_def HandleError_def
      AddRateLimited_def Forget_def Let_def)

lemma processNextItem_body_Done_calls:
  "Done_calls (calls (processNextItem_body lib c key w)) = Done_calls (calls w)"
  "processing (wq (processNextItem_body lib c key w)) = processing (wq w)"
  by (simp_all add: processNextItem_body_def handleError_Done_calls DeepCopy_def Let_def
      split: sum.splits option.splits prod.splits)

lemma processNextItem_dequeued:
  "Get (wq w) = Item key q \<Longrightarrow>
   processNextItem lib c w =
     Some (True, queue_Done key (processNextItem_body lib c key (w\<lparr>wq := q, calls := calls w @ [Queue_Get key]\<rparr>)))"
  by (simp add: processNextItem_def)

lemma processNextItem_found:
  assumes g: "Get (wq w) = Item key q"
    and s: "SplitMetaNamespaceKey lib key = Inr (ns, nm)" and i: "indexer c key = Inr obj"
    and h: "\<forall>p. obj = Some p \<longrightarrow> p < length (heap w)"
  shows "\<exists>w' rest. processNextItem lib c w = Some (True, w')
     \<and> calls w' = calls w @
         [Queue_Get key, GetByKey_call key,
          Reconcile_call (map_option (\<lambda>p. heap w ! p) obj),
          PostReconcile_call nm (map_option (\<lambda>p. heap w ! p) obj)
            (map_option (\<lambda>p. Reconcile_mutation (recon c) (heap w ! p)) obj)
            (Reconcile (recon c) (map_option (\<lambda>p. heap w ! p) obj))] @ rest
     \<and> heap w' = heap w @ (case obj of None \<Rightarrow> [] | Some p \<Rightarrow> [Reconcile_mutation (recon c) (heap w ! p)])"
proof -
  let ?w0 = "w\<lparr>wq := q, calls := calls w @ [Queue_Get key]\<rparr>"
  from h have h0: "\<forall>p. obj = Some p \<longrightarrow> p < length (heap ?w0)" by simp
  note b = processNextItem_body_found [OF s i h0]
  note d = processNextItem_dequeued [OF g, of lib c]
  show ?thesis
  proof (cases obj)
    case None
    with b d handleError_frame [of c _ key] show ?thesis
      apply (simp add: Let_def queue_Done_def split: option.splits)
      apply (auto simp: handleError_def queue_AddRateLimited_def queue_Forget_def HandleError_def)
      done
  next
    case (Some p)
    with b d show ?thesis
      apply (simp add: Let_def queue_Done_def split: option.splits)
      apply (auto simp: handleError_def queue_AddRateLimited_def queue_Forget_def HandleError_def)
      done
  qed
qed

section \<open>Objects absent from the store\<close>

text \<open>
  C5. For a dequeued key that parses and for which the indexer returns neither an object
  nor an error, the generic controller calls \<open>Reconcile\<close> with the zero value of the
  object type (\<open>None\<close>) and then \<open>PostReconcile\<close> with zero-valued \<open>prev\<close> and \<open>cur\<close>
  (and the error of \<open>Reconcile\<close>); no object is allocated.
\<close>

theorem absent_object_still_reconciled:
  assumes "Get (wq w) = Item key q"
    and "SplitMetaNamespaceKey lib key = Inr (ns, nm)"
    and "indexer c key = Inr None"
  shows "\<exists>w' rest. processNextItem lib c w = Some (True, w')
     \<and> calls w' = calls w @
         [Queue_Get key, GetByKey_call key, Reconcile_call None,
          PostReconcile_call nm None None (Reconcile (recon c) None)] @ rest
     \<and> heap w' = heap w"
  using processNextItem_found [OF assms] by simp

theorem absent_object_still_reconciled_witness:
  "Get (wq deleted_world) = Item ''gone'' ((wq deleted_world)\<lparr>queue := [], processing := {''gone''}, dirty := {}\<rparr>)
   \<and> SplitMetaNamespaceKey example_cache ''gone'' = Inr ([], ''gone'')
   \<and> indexer example_controller ''gone'' = Inr None
   \<and> (\<exists>w' rest. processNextItem example_cache example_controller deleted_world = Some (True, w')
        \<and> calls w' =
            [Queue_Get ''gone'', GetByKey_call ''gone'', Reconcile_call None,
             PostReconcile_call ''gone'' None None (Some (Error ''reconcile failed''))] @ rest
        \<and> heap w' = [])"
proof -
  have g: "Get (wq deleted_world) = Item ''gone'' ((wq deleted_world)\<lparr>queue := [], processing := {''gone''}, dirty := {}\<rparr>)"
    by (simp add: Get_def deleted_world_def)
  have s: "SplitMetaNamespaceKey example_cache ''gone'' = Inr ([], ''gone'')"
    by (simp add: example_cache_def)
  have i: "indexer example_controller ''gone'' = Inr None"
    by (simp add: example_controller_def New_def)
  have r: "Reconcile (recon example_controller) None = Some (Error ''reconcile failed'')"
    by (simp add: example_controller_def New_def failing_recon_def)
  have e: "calls deleted_world = []" "heap deleted_world = []"
    by (simp_all add: deleted_world_def)
  from absent_object_still_reconciled [OF g s i]
  have "\<exists>w' rest. processNextItem example_cache example_controller deleted_world = Some (True, w')
        \<and> calls w' =
            [Queue_Get ''gone'', GetByKey_call ''gone'', Reconcile_call None,
             PostReconcile_call ''gone'' None None (Some (Error ''reconcile failed''))] @ rest
        \<and> heap w' = []"
    by (simp add: r e)
  with g s i show ?thesis by blast
qed

section \<open>The snapshot and the copy\<close>

lemma process_found:
  assumes "SplitMetaClusterNamespaceKey lib key = Inr (parent, ns, nm)"
    and "clusterRoleLister c parent nm = Inr p" and "p < length (heap w)"
  shows "process lib c key w =
    (fst (reconcile c (heap w ! p)),
     NewAggregate ((case snd (reconcile c (heap w ! p)) of Some e \<Rightarrow> [e] | None \<Rightarrow> []) @
                   (case commit c (heap w ! p) (reconcile_mutation c (heap w ! p)) of Some e \<Rightarrow> [e] | None \<Rightarrow> [])),
     w\<lparr>heap := heap w @ [reconcile_mutation c (heap w ! p)],
       calls := calls w @
         [Lister_Get_call parent nm, reconcile_call (heap w ! p),
          commit_call (heap w ! p) (reconcile_mutation c (heap w ! p))]\<rparr>)"
  using assms
  by (simp add: process_def DeepCopy_def Let_def nth_append split: prod.splits option.splits)

text \<open>
  C9. Generic controller: for a dequeued key whose object is in the store (at address
  \<open>p\<close>), \<open>Reconcile\<close> is called on an object equal to the snapshot; afterwards every cell
  that existed before holds what it held, the snapshot included, and the only new cell is
  the copy, which carries the writes of \<open>Reconcile\<close>. Replication controller: the same for
  \<^verbatim>\<open>process\<close>, \<^verbatim>\<open>reconcile\<close> and the pair handed to \<^verbatim>\<open>commit\<close>.
\<close>

theorem snapshot_not_mutated:
  "(Get (wq w) = Item key q \<and> SplitMetaNamespaceKey lib key = Inr (ns, nm)
      \<and> indexer c key = Inr (Some p) \<and> p < length (heap w) \<longrightarrow>
    (\<exists>w' rest. processNextItem lib c w = Some (True, w')
       \<and> calls w' = calls w @
           [Queue_Get key, GetByKey_call key, Reconcile_call (Some (heap w ! p)),
            PostReconcile_call nm (Some (heap w ! p)) (Some (Reconcile_mutation (recon c) (heap w ! p)))
              (Reconcile (recon c) (Some (heap w ! p)))] @ rest
       \<and> heap w' = heap w @ [Reconcile_mutation (recon c) (heap w ! p)]
       \<and> heap w' ! p = heap w ! p))
 \<and> (SplitMetaClusterNamespaceKey klib rkey = Inr (parent, rns, rnm)
      \<and> clusterRoleLister rc parent rnm = Inr rp \<and> rp < length (heap v) \<longrightarrow>
    (\<exists>requeue err v'. process klib rc rkey v = (requeue, err, v')
       \<and> calls v' = calls v @
           [Lister_Get_call parent rnm, reconcile_call (heap v ! rp),
            commit_call (heap v ! rp) (reconcile_mutation rc (heap v ! rp))]
       \<and> heap v' = heap v @ [reconcile_mutation rc (heap v ! rp)]
       \<and> heap v' ! rp = heap v ! rp))"
proof (intro conjI impI)
  assume a: "Get (wq w) = Item key q \<and> SplitMetaNamespaceKey lib key = Inr (ns, nm)
      \<and> indexer c key = Inr (Some p) \<and> p < length (heap w)"
  then have h: "\<forall>p'. Some p = Some p' \<longrightarrow> p' < length (heap w)" by simp
  from a processNextItem_found [of w key q lib ns nm c "Some p", OF _ _ _ h]
  obtain w' rest where "processNextItem lib c w = Some (True, w')"
    and "calls w' = calls w @
           [Queue_Get key, GetByKey_call key, Reconcile_call (Some (heap w ! p)),
            PostReconcile_call nm (Some (heap w ! p)) (Some (Reconcile_mutation (recon c) (heap w ! p)))
              (Reconcile (recon c) (Some (heap w ! p)))] @ rest"
    and hp: "heap w' = heap w @ [Reconcile_mutation (recon c) (heap w ! p)]"
    by auto
  moreover from a hp have "heap w' ! p = heap w ! p" by (simp add: nth_append)
  ultimately show "\<exists>w' rest. processNextItem lib c w = Some (True, w')
       \<and> calls w' = calls w @
           [Queue_Get key, GetByKey_call key, Reconcile_call (Some (heap w ! p)),
            PostReconcile_call nm (Some (heap w ! p)) (Some (Reconcile_mutation (recon c) (heap w ! p)))
              (Reconcile (recon c) (Some (heap w ! p)))] @ rest
       \<and> heap w' = heap w @ [Reconcile_mutation (recon c) (heap w ! p)]
       \<and> heap w' ! p = heap w ! p"
    by blast
next
  assume a: "SplitMetaClusterNamespaceKey klib rkey = Inr (parent, rns, rnm)
      \<and> clusterRoleLister rc parent rnm = Inr rp \<and> rp < length (heap v)"
  then have "process klib rc rkey v =
    (fst (reconcile rc (heap v ! rp)),
     NewAggregate ((case snd (reconcile rc (heap v ! rp)) of Some e \<Rightarrow> [e] | None \<Rightarrow> []) @
                   (case commit rc (heap v ! rp) (reconcile_mutation rc (heap v ! rp)) of Some e \<Rightarrow> [e] | None \<Rightarrow> [])),
     v\<lparr>heap := heap v @ [reconcile_mutation rc (heap v ! rp)],
       calls := calls v @
         [Lister_Get_call parent rnm, reconcile_call (heap v ! rp),
          commit_call (heap v ! rp) (reconcile_mutation rc (heap v ! rp))]\<rparr>)"
    using process_found [of klib rkey parent rns rnm rc rp v] by simp
  with a show "\<exists>requeue err v'. process klib rc rkey v = (requeue, err, v')
       \<and> calls v' = calls v @
           [Lister_Get_call parent rnm, reconcile_call (heap v ! rp),
            commit_call (heap v ! rp) (reconcile_mutation rc (heap v ! rp))]
       \<and> heap v' = heap v @ [reconcile_mutation rc (heap v ! rp)]
       \<and> heap v' ! rp = heap v ! rp"
    by (simp add: nth_append)
qed

theorem snapshot_not_mutated_witness:
  "Get (wq (example_world 0)) = Item ''k'' ((wq (example_world 0))\<lparr>queue := [], processing := {''k''}, dirty := {}\<rparr>)
   \<and> SplitMetaNamespaceKey example_cache ''k'' = Inr ([], ''k'')
   \<and> indexer example_controller ''k'' = Inr (Some 0)
   \<and> 0 < length (heap (example_world 0))
   \<and> (\<exists>w' rest. processNextItem example_cache example_controller (example_world 0) = Some (True, w')
        \<and> calls w' =
           [Queue_Get ''k'', GetByKey_call ''k'', Reconcile_call (Some ''spec''),
            PostReconcile_call ''k'' (Some ''spec'') (Some ''spec+status'') (Some (Error ''reconcile failed''))] @ rest
        \<and> heap w' = [''spec'', ''spec+status''])
   \<and> SplitMetaClusterNamespaceKey example_kcpcache ''root|admin'' = Inr (''root'', [], ''admin'')
   \<and> clusterRoleLister labelling_replication ''root'' ''admin'' = Inr 0
   \<and> 0 < length (heap retried_world)
   \<and> (\<exists>requeue err v'. process example_kcpcache labelling_replication ''root|admin'' retried_world = (requeue, err, v')
        \<and> heap v' =
            [ClusterRole \<lparr>GetName = ''admin'', GetClusterName = ''root'', GetAnnotations = []\<rparr>,
             ClusterRole \<lparr>GetName = ''admin'', GetClusterName = ''root'', GetAnnotations = [(''replicate'', ''true'')]\<rparr>])"
proof -
  have g: "Get (wq (example_world 0)) = Item ''k'' ((wq (example_world 0))\<lparr>queue := [], processing := {''k''}, dirty := {}\<rparr>)"
    by (simp add: Get_def example_world_def)
  have s: "SplitMetaNamespaceKey example_cache ''k'' = Inr ([], ''k'')"
    by (simp add: example_cache_def)
  have i: "indexer example_controller ''k'' = Inr (Some 0)"
    by (simp add: example_controller_def New_def)
  have l: "0 < length (heap (example_world 0))" by (simp add: example_world_def)
  have r: "recon example_controller = failing_recon"
    by (simp add: example_controller_def New_def)
  have e: "heap (example_world 0) = [''spec'']" "calls (example_world 0) = []"
    by (simp_all add: example_world_def)
  have ks: "SplitMetaClusterNamespaceKey example_kcpcache ''root|admin'' = Inr (''root'', [], ''admin'')"
    by (simp add: example_kcpcache_def)
  have kl: "clusterRoleLister labelling_replication ''root'' ''admin'' = Inr 0"
    by (simp add: labelling_replication_def)
  have kh: "0 < length (heap retried_world)" by (simp add: retried_world_def)
  note t = snapshot_not_mutated [where w = "example_world 0" and key = "''k''" and lib = example_cache
      and c = example_controller and p = 0 and klib = example_kcpcache and rkey = "''root|admin''"
      and rc = labelling_replication and rp = 0 and v = retried_world]
  from t [THEN conjunct1, rule_format, OF conjI, OF g conjI, OF s conjI, OF i l]
  have a: "\<exists>w' rest. processNextItem example_cache example_controller (example_world 0) = Some (True, w')
        \<and> calls w' =
           [Queue_Get ''k'', GetByKey_call ''k'', Reconcile_call (Some ''spec''),
            PostReconcile_call ''k'' (Some ''spec'') (Some ''spec+status'') (Some (Error ''reconcile failed''))] @ rest
        \<and> heap w' = [''spec'', ''spec+status'']"
    by (simp add: r e failing_recon_def) blast
  from t [THEN conjunct2, rule_format, OF conjI, OF ks conjI, OF kl kh]
  have b: "\<exists>requeue err v'. process example_kcpcache labelling_replication ''root|admin'' retried_world = (requeue, err, v')
        \<and> heap v' =
            [ClusterRole \<lparr>GetName = ''admin'', GetClusterName = ''root'', GetAnnotations = []\<rparr>,
             ClusterRole \<lparr>GetName = ''admin'', GetClusterName = ''root'', GetAnnotations = [(''replicate'', ''true'')]\<rparr>]"
    by (simp add: retried_world_def labelling_replication_def) blast
  from g s i l a ks kl kh b show ?thesis by blast
qed

section \<open>Objects that vanished before processing\<close>

text \<open>
  C6. In the replication controller, when the lister answers NotFound for a dequeued key,
  \<^verbatim>\<open>process\<close> returns no error and no requeue after the lookup alone, and
  \<^verbatim>\<open>processNextWorkItem\<close> then calls \<open>Forget\<close> and \<open>Done\<close> and nothing else: the
  failure counter of the key is 0, no retry is scheduled, and the error sink and the
  objects are untouched.
\<close>

theorem notFound_is_forgotten:
  assumes "Get (wq w) = Item key q"
    and "SplitMetaClusterNamespaceKey lib key = Inr (parent, ns, nm)"
    and "clusterRoleLister c parent nm = Inl err"
    and "IsNotFound err"
  shows "process lib c key (w\<lparr>wq := q, calls := calls w @ [Queue_Get key]\<rparr>) =
           (False, None, w\<lparr>wq := q, calls := calls w @ [Queue_Get key, Lister_Get_call parent nm]\<rparr>)
     \<and> processNextWorkItem lib c w =
         Some (True, w\<lparr>wq := Done key (Forget key q),
                       calls := calls w @ [Queue_Get key, Lister_Get_call parent nm,
                                           Queue_Forget key, Queue_Done key]\<rparr>)
     \<and> failures (Done key (Forget key q)) key = 0
     \<and> waiting (Done key (Forget key q)) = waiting (wq w)"
proof -
  have p: "process lib c key (w\<lparr>wq := q, calls := calls w @ [Queue_Get key]\<rparr>) =
           (False, None, w\<lparr>wq := q, calls := calls w @ [Queue_Get key, Lister_Get_call parent nm]\<rparr>)"
    using assms(2-4) by (simp add: process_def Let_def)
  have "processNextWorkItem lib c w =
         Some (True, w\<lparr>wq := Done key (Forget key q),
                       calls := calls w @ [Queue_Get key, Lister_Get_call parent nm,
                                           Queue_Forget key, Queue_Done key]\<rparr>)"
    using assms(1) p by (simp add: processNextWorkItem_def queue_Forget_def queue_Done_def Let_def)
  moreover have "failures (Done key (Forget key q)) key = 0"
    by (simp add: Done_def Forget_def Let_def)
  moreover have "waiting (Done key (Forget key q)) = waiting (wq w)"
    using Get_Item(3) [OF assms(1)] by (simp add: Done_def Forget_def Let_def)
  ultimately show ?thesis using p by blast
qed

theorem notFound_is_forgotten_witness:
  "Get (wq vanished_world) =
     Item ''root|ghost'' ((wq vanished_world)\<lparr>queue := [], processing := {''root|ghost''}, dirty := {}\<rparr>)
   \<and> SplitMetaClusterNamespaceKey example_kcpcache ''root|ghost'' = Inr (''root'', [], ''ghost'')
   \<and> clusterRoleLister failing_replication ''root'' ''ghost'' = Inl (StatusNotFound ''ghost'')
   \<and> IsNotFound (StatusNotFound ''ghost'')
   \<and> map_option (calls \<circ> snd) (processNextWorkItem example_kcpcache failing_replication vanished_world) =
       Some [Queue_Get ''root|ghost'', Lister_Get_call ''root'' ''ghost'',
             Queue_Forget ''root|ghost'', Queue_Done ''root|ghost'']
   \<and> map_option (sink \<circ> snd) (processNextWorkItem example_kcpcache failing_replication vanished_world) = Some []
   \<and> map_option (\<lambda>r. failures (wq (snd r)) ''root|ghost'')
       (processNextWorkItem example_kcpcache failing_replication vanished_world) = Some 0"
proof -
  have g: "Get (wq vanished_world) =
     Item ''root|ghost'' ((wq vanished_world)\<lparr>queue := [], processing := {''root|ghost''}, dirty := {}\<rparr>)"
    by (simp add: Get_def vanished_world_def)
  have s: "SplitMetaClusterNamespaceKey example_kcpcache ''root|ghost'' = Inr (''root'', [], ''ghost'')"
    by (simp add: example_kcpcache_def)
  have l: "clusterRoleLister failing_replication ''root'' ''ghost'' = Inl (StatusNotFound ''ghost'')"
    by (simp add: failing_replication_def)
  have n: "IsNotFound (StatusNotFound ''ghost'')" by simp
  have e: "calls vanished_world = []" "sink vanished_world = []"
    by (simp_all add: vanished_world_def)
  note t = notFound_is_forgotten [OF g s l n]
  from t have "map_option (calls \<circ> snd) (processNextWorkItem example_kcpcache failing_replication vanished_world) =
       Some [Queue_Get ''root|ghost'', Lister_Get_call ''root'' ''ghost'',
             Queue_Forget ''root|ghost'', Queue_Done ''root|ghost'']"
    by (simp add: e)
  moreover from t have "map_option (sink \<circ> snd) (processNextWorkItem example_kcpcache failing_replication vanished_world) = Some []"
    by (simp add: e)
  moreover from t have "map_option (\<lambda>r. failures (wq (snd r)) ''root|ghost'')
       (processNextWorkItem example_kcpcache failing_replication vanished_world) = Some 0"
    by simp
  ultimately show ?thesis using g s l n by blast
qed

section \<open>One worker per key\<close>

lemma exclusiveD:
  assumes "exclusive s"
  shows "distinct (queue (squeue s))"
    and "\<And>k. k \<in> set (queue (squeue s)) \<Longrightarrow> k \<in> dirty (squeue s)"
    and "\<And>k. k \<in> set (queue (squeue s)) \<Longrightarrow> k \<notin> processing (squeue s)"
    and "\<And>k. k \<in> processing (squeue s) \<Longrightarrow> \<exists>n. holding s n = Some k"
    and "\<And>k n. holding s n = Some k \<Longrightarrow> k \<in> processing (squeue s)"
    and "\<And>n m k. holding s n = Some k \<Longrightarrow> holding s m = Some k \<Longrightarrow> n = m"
  using assms unfolding exclusive_def by blast+

lemma exclusiveI:
  assumes "distinct (queue (squeue s))"
    and "\<And>k. k \<in> set (queue (squeue s)) \<Longrightarrow> k \<in> dirty (squeue s)"
    and "\<And>k. k \<in> set (queue (squeue s)) \<Longrightarrow> k \<notin> processing (squeue s)"
    and "\<And>k. k \<in> processing (squeue s) \<Longrightarrow> \<exists>n. holding s n = Some k"
    and "\<And>k n. holding s n = Some k \<Longrightarrow> k \<in> processing (squeue s)"
    and "\<And>n m k. holding s n = Some k \<Longrightarrow> holding s m = Some k \<Longrightarrow> n = m"
  shows "exclusive s"
  unfolding exclusive_def using assms by blast

lemma exclusive_initial: "exclusive initial"
  by (rule exclusiveI) (simp_all add: initial_def NewNamedRateLimitingQueue_def)

lemma exclusive_same_holding:
  assumes e: "exclusive s" and p: "processing q' = processing (squeue s)"
    and d: "distinct (queue q')"
    and m: "\<And>k. k \<in> set (queue q') \<Longrightarrow> k \<in> dirty q' \<and> k \<notin> processing (squeue s)"
  shows "exclusive (s\<lparr>squeue := q'\<rparr>)"
proof (rule exclusiveI)
  show "distinct (queue (squeue (s\<lparr>squeue := q'\<rparr>)))" using d by simp
  show "\<And>k. k \<in> set (queue (squeue (s\<lparr>squeue := q'\<rparr>))) \<Longrightarrow> k \<in> dirty (squeue (s\<lparr>squeue := q'\<rparr>))"
    using m by simp
  show "\<And>k. k \<in> set (queue (squeue (s\<lparr>squeue := q'\<rparr>))) \<Longrightarrow> k \<notin> processing (squeue (s\<lparr>squeue := q'\<rparr>))"
    using m p by simp
  show "\<And>k. k \<in> processing (squeue (s\<lparr>squeue := q'\<rparr>)) \<Longrightarrow> \<exists>n. holding (s\<lparr>squeue := q'\<rparr>) n = Some k"
    using exclusiveD(4) [OF e] p by simp
  show "\<And>k n. holding (s\<lparr>squeue := q'\<rparr>) n = Some k \<Longrightarrow> k \<in> processing (squeue (s\<lparr>squeue := q'\<rparr>))"
    using exclusiveD(5) [OF e] p by simp
  show "\<And>n m k. holding (s\<lparr>squeue := q'\<rparr>) n = Some k \<Longrightarrow> holding (s\<lparr>squeue := q'\<rparr>) m = Some k \<Longrightarrow> n = m"
    using exclusiveD(6) [OF e] by simp
qed

lemma exclusive_Add:
  assumes e: "exclusive s"
  shows "exclusive (s\<lparr>squeue := Add k (squeue s)\<rparr>)"
proof (rule exclusive_same_holding [OF e])
  note d = exclusiveD(1-3) [OF e]
  show "processing (Add k (squeue s)) = processing (squeue s)"
    by (simp add: Add_def)
  show "distinct (queue (Add k (squeue s)))"
    using d(1) d(2) [of k] by (auto simp: Add_def)
  fix k' assume "k' \<in> set (queue (Add k (squeue s)))"
  then show "k' \<in> dirty (Add k (squeue s)) \<and> k' \<notin> processing (squeue s)"
    using d(2) [of k'] d(3) [of k'] by (auto simp: Add_def split: if_splits)
qed

lemma exclusive_counters:
  assumes e: "exclusive s"
  shows "exclusive (s\<lparr>squeue := AddRateLimited k (squeue s)\<rparr>)"
    and "exclusive (s\<lparr>squeue := Forget k (squeue s)\<rparr>)"
    and "exclusive (s\<lparr>squeue := ShutDown (squeue s)\<rparr>)"
    and "exclusive (s\<lparr>squeue := (squeue s)\<lparr>waiting := ws\<rparr>\<rparr>)"
  using exclusiveD(1-3) [OF e]
  by (auto intro!: exclusive_same_holding [OF e]
      simp: AddRateLimited_def Forget_def ShutDown_def Let_def)

lemma exclusive_delayElapsed:
  assumes "exclusive s"
  shows "exclusive (s\<lparr>squeue := delayElapsed k (squeue s)\<rparr>)"
  using exclusive_Add [OF exclusive_counters(4) [OF assms], of k "remove1 k (waiting (squeue s))"]
  by (simp add: delayElapsed_def)

lemma exclusive_Get:
  assumes e: "exclusive s" and h: "holding s n = None" and g: "Get (squeue s) = Item k q"
  shows "exclusive (s\<lparr>squeue := q, holding := (holding s)(n := Some k)\<rparr>)"
proof (rule exclusiveI)
  note gi = Get_Item [OF g]
  note d = exclusiveD [OF e]
  from d(1) gi(4) have kq: "k \<notin> set (queue q)" and dq: "distinct (queue q)" by simp_all
  from d(3) [of k] gi(4) have kp: "k \<notin> processing (squeue s)" by simp
  from d(5) kp have nobody: "\<And>m. holding s m \<noteq> Some k" by blast
  let ?s' = "s\<lparr>squeue := q, holding := (holding s)(n := Some k)\<rparr>"
  show "distinct (queue (squeue ?s'))" using dq by simp
  show "\<And>k'. k' \<in> set (queue (squeue ?s')) \<Longrightarrow> k' \<in> dirty (squeue ?s')"
    using d(2) kq gi(4,6) by auto
  show "\<And>k'. k' \<in> set (queue (squeue ?s')) \<Longrightarrow> k' \<notin> processing (squeue ?s')"
    using d(3) kq gi(4,5) by auto
  show "\<exists>m. holding ?s' m = Some k'" if "k' \<in> processing (squeue ?s')" for k'
  proof (cases "k' = k")
    case True
    then show ?thesis by (auto intro: exI [of _ n])
  next
    case False
    with that gi(5) have "k' \<in> processing (squeue s)" by simp
    from d(4) [OF this] obtain m where m: "holding s m = Some k'" ..
    with h have "m \<noteq> n" by auto
    with m show ?thesis by (auto intro: exI [of _ m])
  qed
  show "k' \<in> processing (squeue ?s')" if "holding ?s' m = Some k'" for k' m
  proof (cases "m = n")
    case True
    with that gi(5) show ?thesis by simp
  next
    case False
    with that have "holding s m = Some k'" by simp
    from d(5) [OF this] gi(5) show ?thesis by simp
  qed
  show "a = b" if "holding ?s' a = Some k'" and "holding ?s' b = Some k'" for a b k'
  proof (cases "a = n \<or> b = n")
    case True
    with that nobody show ?thesis by (auto split: if_splits)
  next
    case False
    with that have "holding s a = Some k'" "holding s b = Some k'" by simp_all
    then show ?thesis by (rule d(6))
  qed
qed

lemma exclusive_Done:
  assumes e: "exclusive s" and h: "holding s n = Some k"
  shows "exclusive (s\<lparr>squeue := Done k (squeue s), holding := (holding s)(n := None)\<rparr>)"
proof (rule exclusiveI)
  note d = exclusiveD [OF e]
  from d(5) [OF h] have kp: "k \<in> processing (squeue s)" .
  from d(3) [of k] kp have kq: "k \<notin> set (queue (squeue s))" by blast
  from d(6) [OF _ h] have only: "\<And>m. holding s m = Some k \<Longrightarrow> m = n" .
  have p: "processing (Done k (squeue s)) = processing (squeue s) - {k}"
    and dd: "dirty (Done k (squeue s)) = dirty (squeue s)"
    and qq: "queue (Done k (squeue s)) =
             (if k \<in> dirty (squeue s) then queue (squeue s) @ [k] else queue (squeue s))"
    by (simp_all add: Done_def Let_def)
  let ?s' = "s\<lparr>squeue := Done k (squeue s), holding := (holding s)(n := None)\<rparr>"
  show "distinct (queue (squeue ?s'))" using d(1) kq by (simp add: qq)
  show "\<And>k'. k' \<in> set (queue (squeue ?s')) \<Longrightarrow> k' \<in> dirty (squeue ?s')"
    using d(2) by (auto simp: qq dd split: if_splits)
  show "\<And>k'. k' \<in> set (queue (squeue ?s')) \<Longrightarrow> k' \<notin> processing (squeue ?s')"
    using d(3) by (auto simp: qq p split: if_splits)
  show "\<exists>m. holding ?s' m = Some k'" if "k' \<in> processing (squeue ?s')" for k'
  proof -
    from that have kk: "k' \<noteq> k" and "k' \<in> processing (squeue s)" by (simp_all add: p)
    from d(4) [OF this(2)] obtain m where m: "holding s m = Some k'" ..
    with h kk have "m \<noteq> n" by auto
    with m show ?thesis by (auto intro: exI [of _ m])
  qed
  show "k' \<in> processing (squeue ?s')" if "holding ?s' m = Some k'" for k' m
  proof -
    from that have mn: "m \<noteq> n" and hm: "holding s m = Some k'" by (auto split: if_splits)
    from only [of m] hm mn have "k' \<noteq> k" by auto
    with d(5) [OF hm] show ?thesis by (simp add: p)
  qed
  show "a = b" if "holding ?s' a = Some k'" and "holding ?s' b = Some k'" for a b k'
  proof -
    from that have "holding s a = Some k'" "holding s b = Some k'" by (auto split: if_splits)
    then show ?thesis by (rule d(6))
  qed
qed

lemma step_exclusive:
  assumes "step s s'" and "exclusive s"
  shows "exclusive s'"
  using assms
proof (induction rule: step.induct)
  case (step_Add s k)
  then show ?case by (rule exclusive_Add)
next
  case (step_AddRateLimited s k)
  then show ?case by (rule exclusive_counters(1))
next
  case (step_delayElapsed k s)
  then show ?case by (simp add: exclusive_delayElapsed)
next
  case (step_Forget s k)
  then show ?case by (rule exclusive_counters(2))
next
  case (step_ShutDown s)
  then show ?case by (rule exclusive_counters(3))
next
  case (step_Get s n k q)
  then show ?case by (simp add: exclusive_Get)
next
  case (step_Done s n k)
  then show ?case by (simp add: exclusive_Done)
qed

lemma reachable_exclusive:
  assumes "reachable s"
  shows "exclusive s"
  using assms unfolding reachable_def
proof (induction rule: rtranclp_induct)
  case base
  show ?case by (rule exclusive_initial)
next
  case (step y z)
  from step.hyps(2) step.IH show ?case by (rule step_exclusive)
qed

lemma process_Done_calls:
  "Done_calls (calls (snd (snd (process lib c key w)))) = Done_calls (calls w)"
  by (simp add: process_def DeepCopy_def HandleError_def Let_def
      split: sum.splits prod.splits option.splits)

lemma processNextWorkItem_Done:
  assumes g: "Get (wq v) = Item key q"
  shows "\<exists>v'. processNextWorkItem lib c v = Some (True, v')
     \<and> Done_calls (calls v') = Done_calls (calls v) @ [key]
     \<and> last (calls v') = Queue_Done key
     \<and> processing (wq v') = processing (wq v) - {key}"
proof -
  let ?v0 = "v\<lparr>wq := q, calls := calls v @ [Queue_Get key]\<rparr>"
  obtain requeue err v1 where p: "process lib c key ?v0 = (requeue, err, v1)"
    by (cases "process lib c key ?v0") auto
  from process_wq [of lib c key ?v0] p have w1: "wq v1 = q" by simp
  from process_Done_calls [of lib c key ?v0] p
  have d1: "Done_calls (calls v1) = Done_calls (calls v)" by simp
  from g p w1 d1 Get_Item(5) [OF g] show ?thesis
    by (simp add: processNextWorkItem_def queue_AddRateLimited_def queue_Add_def queue_Forget_def
        queue_Done_def HandleError_def AddRateLimited_def Add_def Forget_def Done_def Let_def
        split: option.splits)
qed

lemma processNextItem_Done:
  assumes g: "Get (wq w) = Item key q"
  shows "\<exists>w'. processNextItem lib c w = Some (True, w')
     \<and> Done_calls (calls w') = Done_calls (calls w) @ [key]
     \<and> last (calls w') = Queue_Done key
     \<and> processing (wq w') = processing (wq w) - {key}"
  using processNextItem_dequeued [OF g, of lib c] Get_Item(5) [OF g]
    processNextItem_body_Done_calls [of lib c key "w\<lparr>wq := q, calls := calls w @ [Queue_Get key]\<rparr>"]
  by (simp add: queue_Done_def Done_def Let_def)

text \<open>
  C2. In every state the workers can reach, whatever their number, a key held by one
  worker is held by no other worker, and \<open>Get\<close> does not hand it out: it is delivered
  again only after \<open>Done\<close>. And a call of \<^verbatim>\<open>processNextItem\<close> or of
  \<^verbatim>\<open>processNextWorkItem\<close> that dequeues a key calls \<open>Done\<close> exactly once, for that key,
  as its last call, on every path, after which the key is no longer in flight.
\<close>

theorem one_worker_per_key:
  "(reachable s \<and> holding s n = Some k \<and> m \<noteq> n \<longrightarrow>
      holding s m \<noteq> Some k \<and> (\<forall>q. Get (squeue s) \<noteq> Item k q))
 \<and> (Get (wq w) = Item key q \<longrightarrow>
      (\<exists>w'. processNextItem lib c w = Some (True, w')
         \<and> Done_calls (calls w') = Done_calls (calls w) @ [key]
         \<and> last (calls w') = Queue_Done key
         \<and> processing (wq w') = processing (wq w) - {key}))
 \<and> (Get (wq v) = Item rkey rq \<longrightarrow>
      (\<exists>v'. processNextWorkItem klib rc v = Some (True, v')
         \<and> Done_calls (calls v') = Done_calls (calls v) @ [rkey]
         \<and> last (calls v') = Queue_Done rkey
         \<and> processing (wq v') = processing (wq v) - {rkey}))"
proof (intro conjI impI allI)
  assume a: "reachable s \<and> holding s n = Some k \<and> m \<noteq> n"
  then have e: "exclusive s" by (simp add: reachable_exclusive)
  note d = exclusiveD [OF e]
  from a have hn: "holding s n = Some k" and mn: "m \<noteq> n" by simp_all
  from d(6) [of m k n] hn mn show "holding s m \<noteq> Some k" by blast
  fix q'
  from d(5) [OF hn] have "k \<in> processing (squeue s)" .
  with d(3) [of k] have kq: "k \<notin> set (queue (squeue s))" by blast
  show "Get (squeue s) \<noteq> Item k q'"
  proof
    assume "Get (squeue s) = Item k q'"
    from Get_Item(4) [OF this] kq show False by simp
  qed
next
  assume "Get (wq w) = Item key q"
  then show "\<exists>w'. processNextItem lib c w = Some (True, w')
         \<and> Done_calls (calls w') = Done_calls (calls w) @ [key]
         \<and> last (calls w') = Queue_Done key
         \<and> processing (wq w') = processing (wq w) - {key}"
    by (rule processNextItem_Done)
next
  assume "Get (wq v) = Item rkey rq"
  then show "\<exists>v'. processNextWorkItem klib rc v = Some (True, v')
         \<and> Done_calls (calls v') = Done_calls (calls v) @ [rkey]
         \<and> last (calls v') = Queue_Done rkey
         \<and> processing (wq v') = processing (wq v) - {rkey}"
    by (rule processNextWorkItem_Done)
qed

lemma reachable_example_system: "reachable example_system"
proof -
  let ?q1 = "\<lparr>queue = [''a''], dirty = {''a''}, processing = {}, failures = (\<lambda>_. 0),
              waiting = [], shuttingDown = False\<rparr>"
  let ?s1 = "\<lparr>squeue = ?q1, holding = (\<lambda>_. None)\<rparr>"
  let ?q2 = "\<lparr>queue = [], dirty = {}, processing = {''a''}, failures = (\<lambda>_. 0),
              waiting = [], shuttingDown = False\<rparr>"
  let ?s2 = "\<lparr>squeue = ?q2, holding = (\<lambda>_. None)(0 := Some ''a'')\<rparr>"
  have "step initial (initial\<lparr>squeue := Add ''a'' (squeue initial)\<rparr>)" by (rule step_Add)
  then have 1: "step initial ?s1"
    by (simp add: initial_def NewNamedRateLimitingQueue_def Add_def)
  have "step ?s1 (?s1\<lparr>squeue := ?q2, holding := (holding ?s1)(0 := Some ''a'')\<rparr>)"
    by (rule step_Get) (simp_all add: Get_def)
  then have 2: "step ?s1 ?s2" by simp
  have "step ?s2 (?s2\<lparr>squeue := Add ''a'' (squeue ?s2)\<rparr>)" by (rule step_Add)
  then have 3: "step ?s2 example_system"
    by (simp add: example_system_def Add_def)
  have "step\<^sup>*\<^sup>* initial initial" by (rule rtranclp.rtrancl_refl)
  from this 1 have "step\<^sup>*\<^sup>* initial ?s1" by (rule rtranclp.rtrancl_into_rtrancl)
  from this 2 have "step\<^sup>*\<^sup>* initial ?s2" by (rule rtranclp.rtrancl_into_rtrancl)
  from this 3 have "step\<^sup>*\<^sup>* initial example_system" by (rule rtranclp.rtrancl_into_rtrancl)
  then show ?thesis by (simp add: reachable_def)
qed

theorem one_worker_per_key_witness:
  "reachable example_system \<and> holding example_system 0 = Some ''a'' \<and> (1::nat) \<noteq> 0
   \<and> holding example_system 1 \<noteq> Some ''a''
   \<and> Get (squeue example_system) \<noteq> Item ''a'' (squeue example_system)
   \<and> Get (wq (example_world 0)) = Item ''k'' ((wq (example_world 0))\<lparr>queue := [], processing := {''k''}, dirty := {}\<rparr>)
   \<and> (\<exists>w'. processNextItem example_cache example_controller (example_world 0) = Some (True, w')
        \<and> Done_calls (calls w') = [''k''] \<and> last (calls w') = Queue_Done ''k'' \<and> processing (wq w') = {})
   \<and> Get (wq retried_world) =
       Item ''root|admin'' ((wq retried_world)\<lparr>queue := [], processing := {''root|admin''}, dirty := {}\<rparr>)
   \<and> (\<exists>v'. processNextWorkItem example_kcpcache failing_replication retried_world = Some (True, v')
        \<and> Done_calls (calls v') = [''root|admin''] \<and> last (calls v') = Queue_Done ''root|admin''
        \<and> processing (wq v') = {})"
proof -
  have r: "reachable example_system" by (rule reachable_example_system)
  have h: "holding example_system 0 = Some ''a''" by (simp add: example_system_def)
  have n: "(1::nat) \<noteq> 0" by simp
  have g: "Get (wq (example_world 0)) = Item ''k'' ((wq (example_world 0))\<lparr>queue := [], processing := {''k''}, dirty := {}\<rparr>)"
    by (simp add: Get_def example_world_def)
  have g': "Get (wq retried_world) =
       Item ''root|admin'' ((wq retried_world)\<lparr>queue := [], processing := {''root|admin''}, dirty := {}\<rparr>)"
    by (simp add: Get_def retried_world_def)
  note t = one_worker_per_key [where s = example_system and n = 0 and m = 1 and k = "''a''"
      and w = "example_world 0" and key = "''k''" and lib = example_cache and c = example_controller
      and v = retried_world and rkey = "''root|admin''" and klib = example_kcpcache and rc = failing_replication]
  from t [THEN conjunct1, rule_format, OF conjI, OF r conjI, OF h n]
  have a: "holding example_system 1 \<noteq> Some ''a''"
    and b: "Get (squeue example_system) \<noteq> Item ''a'' (squeue example_system)"
    by simp_all
  from t [THEN conjunct2, THEN conjunct1, rule_format, OF g]
  have c: "\<exists>w'. processNextItem example_cache example_controller (example_world 0) = Some (True, w')
        \<and> Done_calls (calls w') = [''k''] \<and> last (calls w') = Queue_Done ''k'' \<and> processing (wq w') = {}"
    by (simp add: example_world_def)
  from t [THEN conjunct2, THEN conjunct2, rule_format, OF g']
  have d: "\<exists>v'. processNextWorkItem example_kcpcache failing_replication retried_world = Some (True, v')
        \<and> Done_calls (calls v') = [''root|admin''] \<and> last (calls v') = Queue_Done ''root|admin''
        \<and> processing (wq v') = {}"
    by (simp add: retried_world_def)
  show ?thesis by (intro conjI r h n a b g c g' d)
qed

section \<open>The remote-shard index\<close>

lemma remote_lookups_simps [simp]:
  "remote_lookups [] = 0"
  "remote_lookups (xs @ ys) = remote_lookups xs + remote_lookups ys"
  "remote_lookups (x # xs) =
     (case x of ByIndex_call IdxRemoteShardAPIExports _ _ \<Rightarrow> 1 | _ \<Rightarrow> 0) + remote_lookups xs"
  by (simp_all add: remote_lookups_def split: call.splits indexer_id.splits)

lemma Enqueue_remote_lookups:
  "remote_lookups (calls (Enqueue lib ct obj w)) = remote_lookups (calls w)"
  by (simp add: Enqueue_def HandleError_def queue_Add_def split: sum.splits)

lemma enqueueAPIExport_bindings_remote:
  "enqueueAPIExport_bindings lib c obj bs w = Normal w' \<Longrightarrow>
   remote_lookups (calls w') = remote_lookups (calls w)"
proof (induction bs arbitrary: w)
  case Nil
  then show ?case by simp
next
  case (Cons b bs)
  then show ?case
    by (auto simp: Enqueue_remote_lookups split: object.splits)
qed

lemma enqueueAPIExport_remote:
  "enqueueAPIExport lib K c obj w = Normal w' \<Longrightarrow>
   remote_lookups (calls w') = remote_lookups (calls w)"
  by (auto simp: enqueueAPIExport_def HandleError_def Let_def
      dest!: enqueueAPIExport_bindings_remote split: sum.splits)

lemma enqueueAPIResourceSchema_exports_remote:
  "enqueueAPIResourceSchema_exports lib K c obj es w = Normal w' \<Longrightarrow>
   remote_lookups (calls w') = remote_lookups (calls w)"
proof (induction es arbitrary: w)
  case Nil
  then show ?case by simp
next
  case (Cons e es)
  then show ?case
    by (auto split: object.splits outcome.splits dest!: enqueueAPIExport_remote)
qed

lemma enqueueAPIExport_bindings_indep:
  "enqueueAPIExport_bindings lib (c\<lparr>temporaryRemoteShardApiExportsIndexer := remote\<rparr>) obj bs w =
   enqueueAPIExport_bindings lib c obj bs w"
  by (induction bs arbitrary: w) (auto split: object.splits)

lemma enqueueAPIExport_indep:
  "enqueueAPIExport lib K (c\<lparr>temporaryRemoteShardApiExportsIndexer := remote\<rparr>) obj w =
   enqueueAPIExport lib K c obj w"
  by (simp add: enqueueAPIExport_def enqueueAPIExport_bindings_indep Let_def split: sum.splits)

lemma enqueueAPIResourceSchema_exports_indep:
  "enqueueAPIResourceSchema_exports lib K (c\<lparr>temporaryRemoteShardApiExportsIndexer := remote\<rparr>) obj es w =
   enqueueAPIResourceSchema_exports lib K c obj es w"
  by (induction es arbitrary: w) (auto simp: enqueueAPIExport_indep split: object.splits outcome.splits)

text \<open>
  C10. \<^verbatim>\<open>enqueueAPIResourceSchema\<close> looks into the remote-shard indexer only when the key
  of the object could be derived and the local indexer returned an empty list for it.
  When the local indexer returns at least one export, the function goes through those
  exports alone, makes no remote lookup, and its result is the same whatever the
  remote-shard indexer holds: exports known only there do not get their bindings
  enqueued.
\<close>

theorem remote_shard_only_when_local_empty:
  "(enqueueAPIResourceSchema lib K c obj w = Normal w'
      \<and> remote_lookups (calls w') \<noteq> remote_lookups (calls w) \<longrightarrow>
      (\<exists>key. DeletionHandlingMetaNamespaceKeyFunc lib obj = Inr key
         \<and> apiExportsIndexer c (indexAPIExportsByAPIResourceSchema K) key = Inr []))
 \<and> (DeletionHandlingMetaNamespaceKeyFunc lib obj = Inr k
      \<and> apiExportsIndexer c (indexAPIExportsByAPIResourceSchema K) k = Inr apiExports
      \<and> apiExports \<noteq> [] \<longrightarrow>
      enqueueAPIResourceSchema lib K c obj w =
        enqueueAPIResourceSchema_exports lib K c obj apiExports
          (w\<lparr>calls := calls w @ [ByIndex_call IdxAPIExports (indexAPIExportsByAPIResourceSchema K) k]\<rparr>)
      \<and> enqueueAPIResourceSchema lib K (c\<lparr>temporaryRemoteShardApiExportsIndexer := remote\<rparr>) obj w =
        enqueueAPIResourceSchema lib K c obj w
      \<and> (\<forall>w''. enqueueAPIResourceSchema lib K c obj w = Normal w'' \<longrightarrow>
            remote_lookups (calls w'') = remote_lookups (calls w)))"
proof (intro conjI impI)
  assume a: "enqueueAPIResourceSchema lib K c obj w = Normal w'
      \<and> remote_lookups (calls w') \<noteq> remote_lookups (calls w)"
  show "\<exists>key. DeletionHandlingMetaNamespaceKeyFunc lib obj = Inr key
         \<and> apiExportsIndexer c (indexAPIExportsByAPIResourceSchema K) key = Inr []"
  proof (cases "DeletionHandlingMetaNamespaceKeyFunc lib obj")
    case (Inl e)
    with a show ?thesis by (auto simp: enqueueAPIResourceSchema_def HandleError_def)
  next
    case (Inr key)
    show ?thesis
    proof (cases "apiExportsIndexer c (indexAPIExportsByAPIResourceSchema K) key")
      case (Inl e)
      with a Inr show ?thesis
        by (auto simp: enqueueAPIResourceSchema_def HandleError_def Let_def)
    next
      case exports: (Inr es)
      show ?thesis
      proof (cases "es = []")
        case True
        with Inr exports show ?thesis by simp
      next
        case False
        with a Inr exports
        have "enqueueAPIResourceSchema_exports lib K c obj es
                (w\<lparr>calls := calls w @ [ByIndex_call IdxAPIExports (indexAPIExportsByAPIResourceSchema K) key]\<rparr>)
              = Normal w'"
          by (simp add: enqueueAPIResourceSchema_def Let_def)
        from enqueueAPIResourceSchema_exports_remote [OF this] a show ?thesis by simp
      qed
    qed
  qed
next
  assume b: "DeletionHandlingMetaNamespaceKeyFunc lib obj = Inr k
      \<and> apiExportsIndexer c (indexAPIExportsByAPIResourceSchema K) k = Inr apiExports
      \<and> apiExports \<noteq> []"
  then show eq: "enqueueAPIResourceSchema lib K c obj w =
        enqueueAPIResourceSchema_exports lib K c obj apiExports
          (w\<lparr>calls := calls w @ [ByIndex_call IdxAPIExports (indexAPIExportsByAPIResourceSchema K) k]\<rparr>)"
    by (simp add: enqueueAPIResourceSchema_def Let_def)
  from b show "enqueueAPIResourceSchema lib K (c\<lparr>temporaryRemoteShardApiExportsIndexer := remote\<rparr>) obj w =
        enqueueAPIResourceSchema lib K c obj w"
    by (simp add: enqueueAPIResourceSchema_def Let_def enqueueAPIResourceSchema_exports_indep split: sum.splits)
  show "\<forall>w''. enqueueAPIResourceSchema lib K c obj w = Normal w'' \<longrightarrow>
            remote_lookups (calls w'') = remote_lookups (calls w)"
  proof (intro allI impI)
    fix w'' assume "enqueueAPIResourceSchema lib K c obj w = Normal w''"
    with eq have "enqueueAPIResourceSchema_exports lib K c obj apiExports
          (w\<lparr>calls := calls w @ [ByIndex_call IdxAPIExports (indexAPIExportsByAPIResourceSchema K) k]\<rparr>) = Normal w''"
      by simp
    from enqueueAPIResourceSchema_exports_remote [OF this]
    show "remote_lookups (calls w'') = remote_lookups (calls w)" by simp
  qed
qed
lemmas example_apibinding_defs =
  example_object_cache_def example_constants_def example_reconciler_def example_schema_def
  example_export_def example_binding_def empty_state_def bound_crd_def

lemmas enqueue_defs =
  enqueueAPIResourceSchema_def enqueueAPIExport_def Enqueue_def queue_Add_def Add_def
  HandleError_def NewNamedRateLimitingQueue_def Let_def

theorem remote_shard_only_when_local_empty_witness:
  "DeletionHandlingMetaNamespaceKeyFunc example_object_cache (example_schema ''today.widgets'') = Inr ''root|today.widgets''
   \<and> apiExportsIndexer example_reconciler (indexAPIExportsByAPIResourceSchema example_constants) ''root|today.widgets''
       = Inr [example_export ''widgets'']
   \<and> [example_export ''widgets''] \<noteq> []
   \<and> enqueueAPIResourceSchema example_object_cache example_constants
        (example_reconciler\<lparr>temporaryRemoteShardApiExportsIndexer := (\<lambda>ix key. Inr [])\<rparr>)
        (example_schema ''today.widgets'') empty_state =
      enqueueAPIResourceSchema example_object_cache example_constants example_reconciler
        (example_schema ''today.widgets'') empty_state
   \<and> (\<exists>w''. enqueueAPIResourceSchema example_object_cache example_constants example_reconciler
              (example_schema ''today.widgets'') empty_state = Normal w''
          \<and> queue (wq w'') = [''ws1|b1'', ''ws2|b2'']
          \<and> remote_lookups (calls w'') = 0)
   \<and> (\<exists>w'. enqueueAPIResourceSchema example_object_cache example_constants example_reconciler
              (example_schema ''other'') empty_state = Normal w'
          \<and> remote_lookups (calls w') \<noteq> remote_lookups (calls empty_state))
   \<and> apiExportsIndexer example_reconciler (indexAPIExportsByAPIResourceSchema example_constants) ''root|other'' = Inr []"
proof -
  let ?lib = example_object_cache and ?K = example_constants and ?c = example_reconciler
  have k: "DeletionHandlingMetaNamespaceKeyFunc ?lib (example_schema ''today.widgets'') = Inr ''root|today.widgets''"
    by (simp add: example_apibinding_defs)
  have l: "apiExportsIndexer ?c (indexAPIExportsByAPIResourceSchema ?K) ''root|today.widgets''
       = Inr [example_export ''widgets'']"
    by (simp add: example_apibinding_defs)
  have n: "[example_export ''widgets''] \<noteq> []" by simp
  have ev: "\<exists>w''. enqueueAPIResourceSchema ?lib ?K ?c (example_schema ''today.widgets'') empty_state = Normal w''
          \<and> queue (wq w'') = [''ws1|b1'', ''ws2|b2'']"
    by (simp add: enqueue_defs example_apibinding_defs)
  have ev2: "\<exists>w'. enqueueAPIResourceSchema ?lib ?K ?c (example_schema ''other'') empty_state = Normal w'
          \<and> remote_lookups (calls w') \<noteq> remote_lookups (calls empty_state)"
    by (simp add: enqueue_defs example_apibinding_defs)
  have k2: "DeletionHandlingMetaNamespaceKeyFunc ?lib (example_schema ''other'') = Inr ''root|other''"
    by (simp add: example_apibinding_defs)
  note t = remote_shard_only_when_local_empty [where lib = ?lib and K = ?K and c = ?c
      and obj = "example_schema ''today.widgets''" and w = empty_state and k = "''root|today.widgets''"
      and apiExports = "[example_export ''widgets'']" and remote = "\<lambda>ix key. Inr []",
      THEN conjunct2, rule_format, OF conjI, OF k conjI, OF l n]
  from t have indep: "enqueueAPIResourceSchema ?lib ?K
        (?c\<lparr>temporaryRemoteShardApiExportsIndexer := (\<lambda>ix key. Inr [])\<rparr>)
        (example_schema ''today.widgets'') empty_state =
      enqueueAPIResourceSchema ?lib ?K ?c (example_schema ''today.widgets'') empty_state"
    by blast
  from ev obtain w'' where w'': "enqueueAPIResourceSchema ?lib ?K ?c (example_schema ''today.widgets'') empty_state = Normal w''"
    and q: "queue (wq w'') = [''ws1|b1'', ''ws2|b2'']" by blast
  from t w'' have "remote_lookups (calls w'') = remote_lookups (calls empty_state)" by blast
  then have r0: "remote_lookups (calls w'') = 0" by (simp add: empty_state_def)
  from w'' q r0 have a: "\<exists>w''. enqueueAPIResourceSchema ?lib ?K ?c (example_schema ''today.widgets'') empty_state = Normal w''
          \<and> queue (wq w'') = [''ws1|b1'', ''ws2|b2''] \<and> remote_lookups (calls w'') = 0"
    by blast
  from ev2 obtain w' where w': "enqueueAPIResourceSchema ?lib ?K ?c (example_schema ''other'') empty_state = Normal w'"
    and r: "remote_lookups (calls w') \<noteq> remote_lookups (calls empty_state)" by blast
  from remote_shard_only_when_local_empty [where lib = ?lib and K = ?K and c = ?c
      and obj = "example_schema ''other''" and w = empty_state and w' = w',
      THEN conjunct1, rule_format, OF conjI, OF w' r] k2
  have e: "apiExportsIndexer ?c (indexAPIExportsByAPIResourceSchema ?K) ''root|other'' = Inr []"
    by auto
  show ?thesis by (intro conjI k l n indep a ev2 e)
qed

section \<open>From a CRD to the APIBindings\<close>

lemma isOk_Inr: "isOk r \<Longrightarrow> \<exists>x. r = Inr x"
  by (cases r) (simp_all add: isOk_def)

lemma foldl_queue_Add:
  fixes w :: state
  shows "wq (foldl (\<lambda>w k. queue_Add k w) w ks) = foldl (\<lambda>q k. Add k q) (wq w) ks"
    and "sink (foldl (\<lambda>w k. queue_Add k w) w ks) = sink w"
    and "deletedCRDTracker (foldl (\<lambda>w k. queue_Add k w) w ks) = deletedCRDTracker w"
  by (induction ks arbitrary: w) (simp_all add: queue_Add_def)

lemma foldl_Add_dirty:
  assumes "\<not> shuttingDown q"
  shows "\<not> shuttingDown (foldl (\<lambda>q k. Add k q) q ks)"
    and "dirty (foldl (\<lambda>q k. Add k q) q ks) = dirty q \<union> set ks"
  using assms
proof (induction ks arbitrary: q)
  case Nil
  { case 1 then show ?case by simp }
  { case 2 then show ?case by simp }
next
  case (Cons k ks)
  have s: "\<not> shuttingDown q \<Longrightarrow> \<not> shuttingDown (Add k q)" for q
    by (simp add: Add_def)
  have d: "\<not> shuttingDown q \<Longrightarrow> dirty (Add k q) = insert k (dirty q)" for q
    by (auto simp: Add_def)
  { case 1 with Cons.IH(1) [of "Add k q"] s show ?case by simp }
  { case 2 with Cons.IH(2) [of "Add k q"] s d show ?case by simp }
qed

lemma enqueueAPIExport_bindings_ok:
  assumes "list_all (binding_ok lib) bs"
  shows "enqueueAPIExport_bindings lib c (APIExport e) bs w =
         Normal (foldl (\<lambda>w k. queue_Add k w) w (map (keyOf lib) bs))"
  using assms
proof (induction bs arbitrary: w)
  case Nil
  then show ?case by simp
next
  case (Cons b bs)
  from Cons.prems have b: "binding_ok lib b" and bs: "list_all (binding_ok lib) bs" by simp_all
  from b obtain m where m: "b = APIBinding m"
    by (cases b) (simp_all add: binding_ok_def)
  from b obtain k where k: "DeletionHandlingMetaNamespaceKeyFunc lib b = Inr k"
    using isOk_Inr by (auto simp: binding_ok_def)
  then have "Enqueue lib (ctl c) b w = queue_Add (keyOf lib b) w"
    by (simp add: Enqueue_def keyOf_def)
  with m Cons.IH [OF bs] show ?case by simp
qed

lemma enqueueAPIExport_ok:
  assumes "export_ok lib K c e"
  shows "\<exists>w'. enqueueAPIExport lib K c e w = Normal w'
     \<and> wq w' = foldl (\<lambda>q k. Add k q) (wq w) (map (keyOf lib) (bindingsOf lib K c e))
     \<and> sink w' = sink w \<and> deletedCRDTracker w' = deletedCRDTracker w"
proof -
  from assms obtain m where m: "e = APIExport m"
    by (cases e) (simp_all add: export_ok_def)
  from assms obtain k where k: "DeletionHandlingMetaNamespaceKeyFunc lib e = Inr k"
    using isOk_Inr by (auto simp: export_ok_def)
  then have ko: "keyOf lib e = k" by (simp add: keyOf_def)
  from assms ko obtain bs where bs: "apiBindingsIndexer c (indexAPIBindingsByWorkspaceExport K) k = Inr bs"
    using isOk_Inr by (auto simp: export_ok_def)
  with ko have bo: "bindingsOf lib K c e = bs" by (simp add: bindingsOf_def lookup_def)
  with assms have ok: "list_all (binding_ok lib) bs" by (simp add: export_ok_def)
  let ?w = "w\<lparr>calls := calls w @ [ByIndex_call IdxAPIBindings (indexAPIBindingsByWorkspaceExport K) k]\<rparr>"
  have "enqueueAPIExport lib K c e w = Normal (foldl (\<lambda>w k. queue_Add k w) ?w (map (keyOf lib) bs))"
    using k bs enqueueAPIExport_bindings_ok [OF ok, of c m ?w]
    by (simp add: enqueueAPIExport_def m Let_def)
  then show ?thesis by (simp add: foldl_queue_Add bo)
qed

lemma enqueueAPIResourceSchema_exports_ok:
  assumes "list_all (export_ok lib K c) es"
  shows "\<exists>w'. enqueueAPIResourceSchema_exports lib K c (APIResourceSchema s) es w = Normal w'
     \<and> wq w' = foldl (\<lambda>q k. Add k q) (wq w) (map (keyOf lib) (concat (map (bindingsOf lib K c) es)))
     \<and> sink w' = sink w \<and> deletedCRDTracker w' = deletedCRDTracker w"
  using assms
proof (induction es arbitrary: w)
  case Nil
  then show ?case by simp
next
  case (Cons e es)
  from Cons.prems have e: "export_ok lib K c e" and es: "list_all (export_ok lib K c) es" by simp_all
  from enqueueAPIExport_ok [OF e, of w] obtain w1 where
    w1: "enqueueAPIExport lib K c e w = Normal w1"
    and q1: "wq w1 = foldl (\<lambda>q k. Add k q) (wq w) (map (keyOf lib) (bindingsOf lib K c e))"
    and s1: "sink w1 = sink w" and t1: "deletedCRDTracker w1 = deletedCRDTracker w"
    by blast
  from Cons.IH [OF es, of w1] obtain w' where
    w': "enqueueAPIResourceSchema_exports lib K c (APIResourceSchema s) es w1 = Normal w'"
    and q': "wq w' = foldl (\<lambda>q k. Add k q) (wq w1) (map (keyOf lib) (concat (map (bindingsOf lib K c) es)))"
    and s': "sink w' = sink w1" and t': "deletedCRDTracker w' = deletedCRDTracker w1"
    by blast
  from w1 w' have "enqueueAPIResourceSchema_exports lib K c (APIResourceSchema s) (e # es) w = Normal w'"
    by simp
  moreover from q1 q' have "wq w' = foldl (\<lambda>q k. Add k q) (wq w)
      (map (keyOf lib) (concat (map (bindingsOf lib K c) (e # es))))"
    by simp
  ultimately show ?case using s1 s' t1 t' by simp
qed

lemma enqueueAPIResourceSchema_ok:
  assumes "chain_ok lib K c (APIResourceSchema s)"
  shows "\<exists>w'. enqueueAPIResourceSchema lib K c (APIResourceSchema s) w = Normal w'
     \<and> wq w' = foldl (\<lambda>q k. Add k q) (wq w) (map (keyOf lib) (dependents lib K c (APIResourceSchema s)))
     \<and> sink w' = sink w \<and> deletedCRDTracker w' = deletedCRDTracker w"
proof -
  let ?schema = "APIResourceSchema s"
  let ?ix = "indexAPIExportsByAPIResourceSchema K"
  from assms obtain k where k: "DeletionHandlingMetaNamespaceKeyFunc lib ?schema = Inr k"
    using isOk_Inr by (auto simp: chain_ok_def)
  then have ko: "keyOf lib ?schema = k" by (simp add: keyOf_def)
  from assms ko obtain local where l: "apiExportsIndexer c ?ix k = Inr local"
    using isOk_Inr by (auto simp: chain_ok_def)
  then have lo: "lookup (apiExportsIndexer c) ?ix k = local" by (simp add: lookup_def)
  from assms have ok: "list_all (export_ok lib K c) (exportsOf lib K c ?schema)"
    by (simp add: chain_ok_def)
  let ?w1 = "w\<lparr>calls := calls w @ [ByIndex_call IdxAPIExports ?ix k]\<rparr>"
  show ?thesis
  proof (cases "local = []")
    case False
    with ko lo have ex: "exportsOf lib K c ?schema = local" by (simp add: exportsOf_def)
    from False k l have "enqueueAPIResourceSchema lib K c ?schema w =
        enqueueAPIResourceSchema_exports lib K c ?schema local ?w1"
      by (simp add: enqueueAPIResourceSchema_def Let_def)
    with enqueueAPIResourceSchema_exports_ok [of lib K c local s ?w1] ok ex
    show ?thesis by (simp add: dependents_def)
  next
    case True
    with assms ko lo obtain remote where r: "temporaryRemoteShardApiExportsIndexer c ?ix k = Inr remote"
      using isOk_Inr by (auto simp: chain_ok_def)
    with True ko lo have ex: "exportsOf lib K c ?schema = remote"
      by (simp add: exportsOf_def lookup_def)
    let ?w2 = "?w1\<lparr>calls := calls ?w1 @ [ByIndex_call IdxRemoteShardAPIExports ?ix k]\<rparr>"
    from True k l r have "enqueueAPIResourceSchema lib K c ?schema w =
        enqueueAPIResourceSchema_exports lib K c ?schema remote ?w2"
      by (simp add: enqueueAPIResourceSchema_def Let_def)
    with enqueueAPIResourceSchema_exports_ok [of lib K c remote s ?w2] ok ex
    show ?thesis by (simp add: dependents_def)
  qed
qed

lemma FilteringResourceEventHandler_passes:
  assumes "obj = CustomResourceDefinition crd" and "FilterFunc obj"
    and "ev = OnAdd obj \<or> ev = OnUpdate oldObj obj \<or> ev = OnDelete obj"
  shows "\<exists>v. FilteringResourceEventHandler lib K c ev w = enqueueCRD lib K c obj v
     \<and> wq v = wq w \<and> sink v = sink w \<and> calls v = calls w"
proof -
  from assms(3) consider (add) "ev = OnAdd obj" | (upd) "ev = OnUpdate oldObj obj" | (del) "ev = OnDelete obj"
    by blast
  then show ?thesis
  proof cases
    case add
    with assms(2) have "FilteringResourceEventHandler lib K c ev w = enqueueCRD lib K c obj w"
      by (simp add: FilteringResourceEventHandler_def AddFunc_def)
    then show ?thesis by blast
  next
    case upd
    with assms(2) have "FilteringResourceEventHandler lib K c ev w = enqueueCRD lib K c obj w"
      by (simp add: FilteringResourceEventHandler_def AddFunc_def UpdateFunc_def Let_def)
    then show ?thesis by blast
  next
    case del
    let ?v = "w\<lparr>deletedCRDTracker := insert (GetName crd) (deletedCRDTracker w)\<rparr>"
    from del assms(1,2) have "FilteringResourceEventHandler lib K c ev w = enqueueCRD lib K c obj ?v"
      by (simp add: FilteringResourceEventHandler_def DeleteFunc_def)
    moreover have "wq ?v = wq w" "sink ?v = sink w" "calls ?v = calls w" by simp_all
    ultimately show ?thesis by blast
  qed
qed

text \<open>
  C7, as amended. Take an add, update or delete event for a CRD that passes the filter
  and carries both schema annotations. When the schema the annotations name resolves
  without error and every key derivation and index lookup on the way succeeds
  (\<open>chain_ok\<close>), the handler adds to the queue, in order, the key of every APIBinding that
  the bindings-by-export index returns for every APIExport found for the schema, where the
  exports found are those of the local exports-by-schema index, or those of the
  remote-shard index when the local index has none; nothing reaches the error sink, and
  unless the queue is shutting down every such binding is queued or marked for requeue
  afterwards. When the schema does not resolve, the handler hands the error to the error
  sink and returns after that one lookup: no index is consulted and the queue is as it
  was.
\<close>

theorem crd_event_reaches_bindings:
  assumes "obj = CustomResourceDefinition crd" and "FilterFunc obj"
    and "annotation crd (AnnotationSchemaClusterKey K) \<noteq> []"
    and "annotation crd (AnnotationSchemaNameKey K) \<noteq> []"
    and "ev = OnAdd obj \<or> ev = OnUpdate oldObj obj \<or> ev = OnDelete obj"
  shows
  "(getAPIResourceSchema c (annotation crd (AnnotationSchemaClusterKey K))
       (annotation crd (AnnotationSchemaNameKey K)) = Inr s
    \<and> chain_ok lib K c (APIResourceSchema s) \<longrightarrow>
      (\<exists>w'. FilteringResourceEventHandler lib K c ev w = Normal w'
         \<and> wq w' = foldl (\<lambda>q k. Add k q) (wq w) (map (keyOf lib) (dependents lib K c (APIResourceSchema s)))
         \<and> sink w' = sink w
         \<and> (\<not> shuttingDown (wq w) \<longrightarrow>
              (\<forall>b \<in> set (dependents lib K c (APIResourceSchema s)). keyOf lib b \<in> dirty (wq w')))))
 \<and> (getAPIResourceSchema c (annotation crd (AnnotationSchemaClusterKey K))
       (annotation crd (AnnotationSchemaNameKey K)) = Inl err \<longrightarrow>
      (\<exists>w'. FilteringResourceEventHandler lib K c ev w = Normal w'
         \<and> wq w' = wq w
         \<and> sink w' = sink w @ [err]
         \<and> calls w' = calls w @
             [getAPIResourceSchema_call (annotation crd (AnnotationSchemaClusterKey K))
                (annotation crd (AnnotationSchemaNameKey K))]))"
proof (intro conjI impI)
  let ?keys = "map (keyOf lib) (dependents lib K c (APIResourceSchema s))"
  assume a: "getAPIResourceSchema c (annotation crd (AnnotationSchemaClusterKey K))
       (annotation crd (AnnotationSchemaNameKey K)) = Inr s
    \<and> chain_ok lib K c (APIResourceSchema s)"
  then have g: "getAPIResourceSchema c (annotation crd (AnnotationSchemaClusterKey K))
       (annotation crd (AnnotationSchemaNameKey K)) = Inr s"
    and ok: "chain_ok lib K c (APIResourceSchema s)"
    by simp_all
  from FilteringResourceEventHandler_passes [OF assms(1,2,5), of lib K c w]
  obtain v where v: "FilteringResourceEventHandler lib K c ev w = enqueueCRD lib K c obj v"
    and vq: "wq v = wq w" and vs: "sink v = sink w"
    by blast
  let ?v = "v\<lparr>calls := calls v @
        [getAPIResourceSchema_call (annotation crd (AnnotationSchemaClusterKey K))
           (annotation crd (AnnotationSchemaNameKey K))]\<rparr>"
  from assms(1,3,4) g have "enqueueCRD lib K c obj v =
        enqueueAPIResourceSchema lib K c (APIResourceSchema s) ?v"
    by (simp add: enqueueCRD_def Let_def)
  with enqueueAPIResourceSchema_ok [OF ok, of ?v] v vq vs
  obtain w' where r: "FilteringResourceEventHandler lib K c ev w = Normal w'"
    and q: "wq w' = foldl (\<lambda>q k. Add k q) (wq w) ?keys" and sk: "sink w' = sink w"
    by auto
  have "\<not> shuttingDown (wq w) \<longrightarrow>
          (\<forall>b \<in> set (dependents lib K c (APIResourceSchema s)). keyOf lib b \<in> dirty (wq w'))"
  proof (intro impI ballI)
    fix b assume "\<not> shuttingDown (wq w)" and b: "b \<in> set (dependents lib K c (APIResourceSchema s))"
    from foldl_Add_dirty(2) [OF this(1), of ?keys] q b
    show "keyOf lib b \<in> dirty (wq w')" by simp
  qed
  with r q sk show "\<exists>w'. FilteringResourceEventHandler lib K c ev w = Normal w'
         \<and> wq w' = foldl (\<lambda>q k. Add k q) (wq w) ?keys
         \<and> sink w' = sink w
         \<and> (\<not> shuttingDown (wq w) \<longrightarrow>
              (\<forall>b \<in> set (dependents lib K c (APIResourceSchema s)). keyOf lib b \<in> dirty (wq w')))"
    by blast
next
  assume g: "getAPIResourceSchema c (annotation crd (AnnotationSchemaClusterKey K))
       (annotation crd (AnnotationSchemaNameKey K)) = Inl err"
  from FilteringResourceEventHandler_passes [OF assms(1,2,5), of lib K c w]
  obtain v where v: "FilteringResourceEventHandler lib K c ev w = enqueueCRD lib K c obj v"
    and vq: "wq v = wq w" and vs: "sink v = sink w" and vc: "calls v = calls w"
    by blast
  let ?v = "v\<lparr>calls := calls v @
        [getAPIResourceSchema_call (annotation crd (AnnotationSchemaClusterKey K))
           (annotation crd (AnnotationSchemaNameKey K))]\<rparr>"
  from assms(1,3,4) g have "enqueueCRD lib K c obj v = Normal (HandleError err ?v)"
    by (simp add: enqueueCRD_def Let_def)
  with v have "FilteringResourceEventHandler lib K c ev w = Normal (HandleError err ?v)" by simp
  moreover have "wq (HandleError err ?v) = wq w" and "sink (HandleError err ?v) = sink w @ [err]"
    and "calls (HandleError err ?v) = calls w @
             [getAPIResourceSchema_call (annotation crd (AnnotationSchemaClusterKey K))
                (annotation crd (AnnotationSchemaNameKey K))]"
    using vq vs vc by (simp_all add: HandleError_def)
  ultimately show "\<exists>w'. FilteringResourceEventHandler lib K c ev w = Normal w'
         \<and> wq w' = wq w
         \<and> sink w' = sink w @ [err]
         \<and> calls w' = calls w @
             [getAPIResourceSchema_call (annotation crd (AnnotationSchemaClusterKey K))
                (annotation crd (AnnotationSchemaNameKey K))]"
    by blast
qed

lemma example_chain_ok:
  "chain_ok example_object_cache example_constants example_reconciler (example_schema ''today.widgets'')"
  by (simp add: chain_ok_def export_ok_def binding_ok_def isOk_def exportsOf_def bindingsOf_def
      lookup_def keyOf_def example_apibinding_defs)

lemma example_dependents:
  "map (keyOf example_object_cache)
     (dependents example_object_cache example_constants example_reconciler (example_schema ''today.widgets''))
   = [''ws1|b1'', ''ws2|b2'']"
  by (simp add: dependents_def exportsOf_def bindingsOf_def lookup_def keyOf_def example_apibinding_defs)

theorem crd_event_reaches_bindings_witness:
  "FilterFunc bound_crd
   \<and> annotation \<lparr>GetName = ''widgets.example.io'', GetClusterName = ''system:bound-crds'',
        GetAnnotations = [(''schema-cluster'', ''root''), (''schema-name'', ''today.widgets'')]\<rparr>
        (AnnotationSchemaClusterKey example_constants) = ''root''
   \<and> annotation \<lparr>GetName = ''widgets.example.io'', GetClusterName = ''system:bound-crds'',
        GetAnnotations = [(''schema-cluster'', ''root''), (''schema-name'', ''today.widgets'')]\<rparr>
        (AnnotationSchemaNameKey example_constants) = ''today.widgets''
   \<and> getAPIResourceSchema example_reconciler ''root'' ''today.widgets'' =
        Inr \<lparr>GetName = ''today.widgets'', GetClusterName = ''root'', GetAnnotations = []\<rparr>
   \<and> chain_ok example_object_cache example_constants example_reconciler (example_schema ''today.widgets'')
   \<and> (\<exists>w'. FilteringResourceEventHandler example_object_cache example_constants example_reconciler
              (OnDelete bound_crd) empty_state = Normal w'
          \<and> queue (wq w') = [''ws1|b1'', ''ws2|b2''] \<and> sink w' = []
          \<and> dirty (wq w') = {''ws1|b1'', ''ws2|b2''})
   \<and> getAPIResourceSchema schemaless_reconciler ''root'' ''today.widgets'' = Inl (StatusNotFound ''today.widgets'')
   \<and> (\<exists>w'. FilteringResourceEventHandler example_object_cache example_constants schemaless_reconciler
              (OnUpdate bound_crd bound_crd) empty_state = Normal w'
          \<and> wq w' = wq empty_state \<and> sink w' = [StatusNotFound ''today.widgets'']
          \<and> calls w' = [getAPIResourceSchema_call ''root'' ''today.widgets''])"
proof -
  let ?crd = "\<lparr>GetName = ''widgets.example.io'', GetClusterName = ''system:bound-crds'',
        GetAnnotations = [(''schema-cluster'', ''root''), (''schema-name'', ''today.widgets'')]\<rparr>"
  let ?s = "\<lparr>GetName = ''today.widgets'', GetClusterName = ''root'', GetAnnotations = []\<rparr>"
  have o: "bound_crd = CustomResourceDefinition ?crd" by (simp add: bound_crd_def)
  have f: "FilterFunc bound_crd" by (simp add: FilterFunc_def bound_crd_def ShadowWorkspaceName_def)
  have a1: "annotation ?crd (AnnotationSchemaClusterKey example_constants) = ''root''"
    and a2: "annotation ?crd (AnnotationSchemaNameKey example_constants) = ''today.widgets''"
    by (simp_all add: annotation_def example_constants_def)
  have n1: "annotation ?crd (AnnotationSchemaClusterKey example_constants) \<noteq> []"
    and n2: "annotation ?crd (AnnotationSchemaNameKey example_constants) \<noteq> []"
    by (simp_all add: a1 a2)
  have g: "getAPIResourceSchema example_reconciler ''root'' ''today.widgets'' = Inr ?s"
    by (simp add: example_reconciler_def)
  then have g': "getAPIResourceSchema example_reconciler
       (annotation ?crd (AnnotationSchemaClusterKey example_constants))
       (annotation ?crd (AnnotationSchemaNameKey example_constants)) = Inr ?s"
    by (simp add: a1 a2)
  have sch: "example_schema ''today.widgets'' = APIResourceSchema ?s" by (simp add: example_schema_def)
  have c: "chain_ok example_object_cache example_constants example_reconciler (APIResourceSchema ?s)"
    using example_chain_ok by (simp add: sch)
  have e: "OnDelete bound_crd = OnAdd bound_crd \<or> OnDelete bound_crd = OnUpdate bound_crd bound_crd
      \<or> OnDelete bound_crd = OnDelete bound_crd"
    by simp
  from crd_event_reaches_bindings [OF o f n1 n2 e, of example_reconciler ?s example_object_cache empty_state,
      THEN conjunct1, rule_format, OF conjI, OF g' c]
  obtain w' where r: "FilteringResourceEventHandler example_object_cache example_constants example_reconciler
              (OnDelete bound_crd) empty_state = Normal w'"
    and q: "wq w' = foldl (\<lambda>q k. Add k q) (wq empty_state)
          (map (keyOf example_object_cache)
             (dependents example_object_cache example_constants example_reconciler (APIResourceSchema ?s)))"
    and sk: "sink w' = sink empty_state"
    by blast
  from q have q': "wq w' = foldl (\<lambda>q k. Add k q) (wq empty_state) [''ws1|b1'', ''ws2|b2'']"
    using example_dependents by (simp add: sch)
  from q' have "queue (wq w') = [''ws1|b1'', ''ws2|b2'']" and "dirty (wq w') = {''ws1|b1'', ''ws2|b2''}"
    by (auto simp: empty_state_def NewNamedRateLimitingQueue_def Add_def)
  moreover from sk have "sink w' = []" by (simp add: empty_state_def)
  ultimately have x: "\<exists>w'. FilteringResourceEventHandler example_object_cache example_constants example_reconciler
              (OnDelete bound_crd) empty_state = Normal w'
          \<and> queue (wq w') = [''ws1|b1'', ''ws2|b2''] \<and> sink w' = []
          \<and> dirty (wq w') = {''ws1|b1'', ''ws2|b2''}"
    using r by blast
  from c have c': "chain_ok example_object_cache example_constants example_reconciler (example_schema ''today.widgets'')"
    by (simp add: sch)
  have gl: "getAPIResourceSchema schemaless_reconciler ''root'' ''today.widgets'' = Inl (StatusNotFound ''today.widgets'')"
    by (simp add: schemaless_reconciler_def)
  then have gl': "getAPIResourceSchema schemaless_reconciler
       (annotation ?crd (AnnotationSchemaClusterKey example_constants))
       (annotation ?crd (AnnotationSchemaNameKey example_constants)) = Inl (StatusNotFound ''today.widgets'')"
    by (simp add: a1 a2)
  have u: "OnUpdate bound_crd bound_crd = OnAdd bound_crd
      \<or> OnUpdate bound_crd bound_crd = OnUpdate bound_crd bound_crd
      \<or> OnUpdate bound_crd bound_crd = OnDelete bound_crd"
    by simp
  from crd_event_reaches_bindings [OF o f n1 n2 u, of schemaless_reconciler _ example_object_cache empty_state,
      THEN conjunct2, rule_format, OF gl']
  have y: "\<exists>w'. FilteringResourceEventHandler example_object_cache example_constants schemaless_reconciler
              (OnUpdate bound_crd bound_crd) empty_state = Normal w'
          \<and> wq w' = wq empty_state \<and> sink w' = [StatusNotFound ''today.widgets'']
          \<and> calls w' = [getAPIResourceSchema_call ''root'' ''today.widgets'']"
    by (simp add: a1 a2 empty_state_def)
  show ?thesis by (intro conjI f a1 a2 g c' x gl y)
qed

text \<open>C7, refuted as stated: the CRD passes the filter and carries both annotations, the
  indexes hold an export of the schema and two bindings of that export, but the schema
  itself does not resolve (NotFound). The handler reports the error and returns: no index
  is consulted and no binding is enqueued.\<close>

theorem unresolved_schema_counterexample:
  "FilterFunc bound_crd
   \<and> lookup (apiExportsIndexer schemaless_reconciler) ''bySchema'' ''root|today.widgets''
       = [example_export ''widgets'']
   \<and> bindingsOf example_object_cache example_constants schemaless_reconciler (example_export ''widgets'')
       = [example_binding ''ws1'' ''b1'', example_binding ''ws2'' ''b2'']
   \<and> FilteringResourceEventHandler example_object_cache example_constants schemaless_reconciler
        (OnAdd bound_crd) empty_state =
      Normal (empty_state\<lparr>sink := [StatusNotFound ''today.widgets''],
                          calls := [getAPIResourceSchema_call ''root'' ''today.widgets'']\<rparr>)
   \<and> queue (wq empty_state) = [] \<and> dirty (wq empty_state) = {}"
  by (simp add: FilteringResourceEventHandler_def AddFunc_def enqueueCRD_def FilterFunc_def
      ShadowWorkspaceName_def annotation_def schemaless_reconciler_def bindingsOf_def lookup_def keyOf_def
      HandleError_def NewNamedRateLimitingQueue_def Let_def example_apibinding_defs)

section \<open>Events the handlers ignore\<close>

lemma skipped_not_filtered:
  assumes "skipped K obj" and "FilterFunc obj"
  shows "\<exists>crd. obj = CustomResourceDefinition crd
     \<and> (annotation crd (AnnotationSchemaClusterKey K) = [] \<or> annotation crd (AnnotationSchemaNameKey K) = [])"
  using assms by (cases obj) (auto simp: skipped_def FilterFunc_def)

lemma enqueueCRD_skipped:
  assumes "skipped K obj" and "FilterFunc obj"
  shows "enqueueCRD lib K c obj w = Normal w"
  using skipped_not_filtered [OF assms] by (auto simp: enqueueCRD_def)

lemma DeleteFunc_skipped:
  assumes "skipped K obj" and "FilterFunc obj"
  shows "\<exists>w'. DeleteFunc lib K c obj w = Normal w' \<and> wq w' = wq w \<and> calls w' = calls w \<and> sink w' = sink w"
proof -
  from skipped_not_filtered [OF assms] obtain crd where o: "obj = CustomResourceDefinition crd" by blast
  let ?v = "w\<lparr>deletedCRDTracker := insert (GetName crd) (deletedCRDTracker w)\<rparr>"
  from o have "DeleteFunc lib K c obj w = enqueueCRD lib K c obj ?v"
    by (simp add: DeleteFunc_def)
  with enqueueCRD_skipped [OF assms, of lib c ?v] show ?thesis by simp
qed

text \<open>
  C8. A CRD event whose object is not a CustomResourceDefinition, or is outside the shadow
  workspace, or has an empty schema annotation (\<open>skipped\<close>) leaves the work queue, the
  record of lookups and the error sink as they were: no index is consulted and nothing is
  enqueued. An update carries two versions of the object; the old one is handled only when
  the new one fails the filter and the old one passes it, so the statement asks the new
  version to be skipped and the old version to be skipped or not handled. A
  ClusterRoleBinding whose RoleRef is not a ClusterRole of the rbac group, delivered by an
  add, an update or a delete (also as a tombstone), leaves the whole state unchanged.
\<close>

theorem irrelevant_events_enqueue_nothing:
  "(skipped K obj \<longrightarrow>
      FilteringResourceEventHandler lib K c (OnAdd obj) w = Normal w
    \<and> (\<exists>w'. FilteringResourceEventHandler lib K c (OnDelete obj) w = Normal w'
          \<and> wq w' = wq w \<and> calls w' = calls w \<and> sink w' = sink w))
 \<and> (skipped K newObj \<and> (FilterFunc newObj \<or> \<not> FilterFunc oldObj \<or> skipped K oldObj) \<longrightarrow>
      (\<exists>w'. FilteringResourceEventHandler lib K c (OnUpdate oldObj newObj) w = Normal w'
          \<and> wq w' = wq w \<and> calls w' = calls w \<and> sink w' = sink w))
 \<and> (Kind roleRef \<noteq> ''ClusterRole'' \<or> APIGroup roleRef \<noteq> GroupName \<longrightarrow>
      clusterRoleBindingEventHandler klib rc (OnAdd (ClusterRoleBinding crb roleRef)) v = v
    \<and> clusterRoleBindingEventHandler klib rc (OnUpdate oldCrb (ClusterRoleBinding crb roleRef)) v = v
    \<and> clusterRoleBindingEventHandler klib rc (OnDelete (ClusterRoleBinding crb roleRef)) v = v
    \<and> clusterRoleBindingEventHandler klib rc
         (OnDelete (DeletedFinalStateUnknown tk (ClusterRoleBinding crb roleRef))) v = v)"
proof (intro conjI impI)
  assume s: "skipped K obj"
  show "FilteringResourceEventHandler lib K c (OnAdd obj) w = Normal w"
    using enqueueCRD_skipped [OF s, of lib c w]
    by (simp add: FilteringResourceEventHandler_def AddFunc_def)
  show "\<exists>w'. FilteringResourceEventHandler lib K c (OnDelete obj) w = Normal w'
          \<and> wq w' = wq w \<and> calls w' = calls w \<and> sink w' = sink w"
    using DeleteFunc_skipped [OF s, of lib c w]
    by (cases "FilterFunc obj") (simp_all add: FilteringResourceEventHandler_def)
next
  assume a: "skipped K newObj \<and> (FilterFunc newObj \<or> \<not> FilterFunc oldObj \<or> skipped K oldObj)"
  then have s: "skipped K newObj" by simp
  show "\<exists>w'. FilteringResourceEventHandler lib K c (OnUpdate oldObj newObj) w = Normal w'
          \<and> wq w' = wq w \<and> calls w' = calls w \<and> sink w' = sink w"
  proof (cases "FilterFunc newObj")
    case True
    with enqueueCRD_skipped [OF s, of lib c w] show ?thesis
      by (simp add: FilteringResourceEventHandler_def AddFunc_def UpdateFunc_def Let_def)
  next
    case False
    show ?thesis
    proof (cases "FilterFunc oldObj")
      case older: True
      with a False have "skipped K oldObj" by simp
      from DeleteFunc_skipped [OF this older, of lib c w] False older show ?thesis
        by (simp add: FilteringResourceEventHandler_def Let_def)
    next
      case older: False
      with False show ?thesis by (simp add: FilteringResourceEventHandler_def Let_def)
    qed
  qed
next
  assume r: "Kind roleRef \<noteq> ''ClusterRole'' \<or> APIGroup roleRef \<noteq> GroupName"
  then have e: "enqueueClusterRoleBinding klib rc (ClusterRoleBinding crb roleRef) v = v"
    and t: "enqueueClusterRoleBinding klib rc (DeletedFinalStateUnknown tk (ClusterRoleBinding crb roleRef)) v = v"
    by (auto simp: enqueueClusterRoleBinding_def)
  from e show "clusterRoleBindingEventHandler klib rc (OnAdd (ClusterRoleBinding crb roleRef)) v = v"
    and "clusterRoleBindingEventHandler klib rc (OnUpdate oldCrb (ClusterRoleBinding crb roleRef)) v = v"
    and "clusterRoleBindingEventHandler klib rc (OnDelete (ClusterRoleBinding crb roleRef)) v = v"
    by (simp_all add: clusterRoleBindingEventHandler_def)
  from t show "clusterRoleBindingEventHandler klib rc
         (OnDelete (DeletedFinalStateUnknown tk (ClusterRoleBinding crb roleRef))) v = v"
    by (simp add: clusterRoleBindingEventHandler_def)
qed

theorem irrelevant_events_enqueue_nothing_witness:
  "skipped example_constants foreign_crd
   \<and> FilteringResourceEventHandler example_object_cache example_constants example_reconciler
        (OnAdd foreign_crd) empty_state = Normal empty_state
   \<and> skipped example_constants unannotated_crd
   \<and> FilterFunc unannotated_crd
   \<and> (\<exists>w'. FilteringResourceEventHandler example_object_cache example_constants example_reconciler
              (OnUpdate bound_crd unannotated_crd) empty_state = Normal w'
          \<and> wq w' = wq empty_state \<and> calls w' = [] \<and> sink w' = [])
   \<and> (\<exists>w'. FilteringResourceEventHandler example_object_cache example_constants example_reconciler
              (OnDelete unannotated_crd) empty_state = Normal w'
          \<and> wq w' = wq empty_state \<and> calls w' = [] \<and> sink w' = [])
   \<and> Kind \<lparr>APIGroup = ''rbac.authorization.k8s.io'', Kind = ''Role'', RoleRef_Name = ''admin''\<rparr> \<noteq> ''ClusterRole''
   \<and> clusterRoleBindingEventHandler example_kcpcache failing_replication (OnAdd role_binding) retried_world
       = retried_world
   \<and> clusterRoleBindingEventHandler example_kcpcache failing_replication
       (OnDelete (DeletedFinalStateUnknown ''root|viewers'' role_binding)) retried_world = retried_world"
proof -
  let ?lib = example_object_cache and ?K = example_constants and ?c = example_reconciler
  let ?ref = "\<lparr>APIGroup = ''rbac.authorization.k8s.io'', Kind = ''Role'', RoleRef_Name = ''admin''\<rparr>"
  let ?crb = "\<lparr>GetName = ''viewers'', GetClusterName = ''root'', GetAnnotations = []\<rparr>"
  have s1: "skipped ?K foreign_crd"
    by (simp add: skipped_def foreign_crd_def ShadowWorkspaceName_def)
  have s2: "skipped ?K unannotated_crd"
    by (simp add: skipped_def unannotated_crd_def annotation_def example_constants_def)
  have f2: "FilterFunc unannotated_crd"
    by (simp add: FilterFunc_def unannotated_crd_def ShadowWorkspaceName_def)
  have k: "Kind ?ref \<noteq> ''ClusterRole''" by simp
  have rb: "role_binding = ClusterRoleBinding ?crb ?ref" by (simp add: role_binding_def)
  have e: "calls empty_state = []" "sink empty_state = []" by (simp_all add: empty_state_def)
  note t1 = irrelevant_events_enqueue_nothing [where K = ?K and lib = ?lib and c = ?c
      and obj = foreign_crd and w = empty_state, THEN conjunct1, rule_format, OF s1]
  note t2 = irrelevant_events_enqueue_nothing [where K = ?K and lib = ?lib and c = ?c
      and obj = unannotated_crd and w = empty_state, THEN conjunct1, rule_format, OF s2]
  note t3 = irrelevant_events_enqueue_nothing [where K = ?K and lib = ?lib and c = ?c
      and newObj = unannotated_crd and oldObj = bound_crd and w = empty_state,
      THEN conjunct2, THEN conjunct1, rule_format, OF conjI, OF s2 disjI1, OF f2]
  note t4 = irrelevant_events_enqueue_nothing [where klib = example_kcpcache and rc = failing_replication
      and roleRef = ?ref and crb = ?crb and v = retried_world and tk = "''root|viewers''",
      THEN conjunct2, THEN conjunct2, rule_format, OF disjI1, OF k]
  from t1 have a: "FilteringResourceEventHandler ?lib ?K ?c (OnAdd foreign_crd) empty_state = Normal empty_state"
    by blast
  from t3 have u: "\<exists>w'. FilteringResourceEventHandler ?lib ?K ?c (OnUpdate bound_crd unannotated_crd) empty_state = Normal w'
          \<and> wq w' = wq empty_state \<and> calls w' = [] \<and> sink w' = []"
    by (simp add: e)
  from t2 have d: "\<exists>w'. FilteringResourceEventHandler ?lib ?K ?c (OnDelete unannotated_crd) empty_state = Normal w'
          \<and> wq w' = wq empty_state \<and> calls w' = [] \<and> sink w' = []"
    by (simp add: e)
  from t4 have b1: "clusterRoleBindingEventHandler example_kcpcache failing_replication (OnAdd role_binding) retried_world
       = retried_world"
    and b2: "clusterRoleBindingEventHandler example_kcpcache failing_replication
       (OnDelete (DeletedFinalStateUnknown ''root|viewers'' role_binding)) retried_world = retried_world"
    by (simp_all add: rb)
  show ?thesis by (intro conjI s1 a s2 f2 u d k b1 b2)
qed

end
